theory Spec2Isabelle
  imports Main "HOL-Library.Sublist"
begin

section \<open>JavaScript values and strings\<close>

text \<open>
  The orchestrator (\<^verbatim>\<open>index.mjs\<close>), the tmux backend and the registry are JavaScript.
  A JavaScript string is modelled as a HOL \<open>string\<close>: one \<open>char\<close> per UTF-16 code
  unit, for the code units below 256. The values that reach the orchestrator (tool
  arguments and the contents of the registry's JSON files) are modelled by \<open>jsval\<close>.
  Numbers are the integers (\<open>JNum\<close>) and \<open>NaN\<close> (\<open>JNaN\<close>, what \<^verbatim>\<open>Number.parseInt\<close>
  gives on a string with no digits); fractions are not modelled.
\<close>

datatype jsval =
    JUndefined
  | JNull
  | JBool bool
  | JNum int
  | JNaN
  | JStr string
  | JArr "jsval list"
  | JObj "(string \<times> jsval) list"

datatype error =
    InvalidName
  | NoCurrentProject
  | SessionNotFound
  | AgentAlreadyExists
  | AgentNotFound
  | UnsupportedAgentType
  | BackendCommandError
  | NoPaneFound
  | TypeError
  | IoError

text \<open>ToBoolean: what \<^verbatim>\<open>if (v)\<close>, \<^verbatim>\<open>v || w\<close> and \<^verbatim>\<open>v ? a : b\<close> test.\<close>

fun truthy :: "jsval \<Rightarrow> bool" where
  "truthy JUndefined = False"
| "truthy JNull = False"
| "truthy (JBool b) = b"
| "truthy (JNum n) = (n \<noteq> 0)"
| "truthy JNaN = False"
| "truthy (JStr s) = (s \<noteq> [])"
| "truthy (JArr xs) = True"
| "truthy (JObj kvs) = True"

text \<open>\<^verbatim>\<open>a || b\<close> on values.\<close>

definition js_or :: "jsval \<Rightarrow> jsval \<Rightarrow> jsval" where
  "js_or a b = (if truthy a then a else b)"

text \<open>Decimal digits of a natural number, most significant first.\<close>

fun dec_nat :: "nat \<Rightarrow> string" where
  "dec_nat n =
     (if n < 10 then [char_of (48 + n)]
      else dec_nat (n div 10) @ [char_of (48 + n mod 10)])"

definition dec_int :: "int \<Rightarrow> string" where
  "dec_int i = (if i < 0 then CHR ''-'' # dec_nat (nat (- i)) else dec_nat (nat i))"

text \<open>\<^verbatim>\<open>xs.join(sep)\<close> on strings.\<close>

fun join :: "string \<Rightarrow> string list \<Rightarrow> string" where
  "join sep [] = []"
| "join sep [x] = x"
| "join sep (x # y # ys) = x @ sep @ join sep (y # ys)"

text \<open>
  \<^verbatim>\<open>String(v)\<close> and template interpolation. An array joins the strings of its elements
  with commas, \<^verbatim>\<open>null\<close> and \<^verbatim>\<open>undefined\<close> elements giving the empty string; a plain
  object gives \<^verbatim>\<open>[object Object]\<close>. Integers print in decimal (JavaScript does so
  below \<open>10^21\<close>).
\<close>

fun js_String :: "jsval \<Rightarrow> string" where
  "js_String JUndefined = ''undefined''"
| "js_String JNull = ''null''"
| "js_String (JBool b) = (if b then ''true'' else ''false'')"
| "js_String (JNum n) = dec_int n"
| "js_String JNaN = ''NaN''"
| "js_String (JStr s) = s"
| "js_String (JArr xs) =
     join '','' (map (\<lambda>x. if x = JNull \<or> x = JUndefined then [] else js_String x) xs)"
| "js_String (JObj kvs) = ''[object Object]''"

text \<open>
  Property read with optional chaining, \<^verbatim>\<open>v?.k\<close>, for the keys the program reads
  (\<^verbatim>\<open>name\<close>, \<^verbatim>\<open>windowId\<close>, \<^verbatim>\<open>paneId\<close>, \<^verbatim>\<open>cwd\<close>, \<^verbatim>\<open>command\<close>, \<^verbatim>\<open>cmd\<close>, \<^verbatim>\<open>args\<close>,
  \<^verbatim>\<open>agents\<close>, \<^verbatim>\<open>windowIndex\<close>): none of them is a property of a primitive or of an
  array, so only a plain object can hold one.
\<close>

fun js_get :: "jsval \<Rightarrow> string \<Rightarrow> jsval" where
  "js_get (JObj kvs) k = (case map_of kvs k of Some v \<Rightarrow> v | None \<Rightarrow> JUndefined)"
| "js_get v k = JUndefined"

text \<open>
  White space as \<^verbatim>\<open>String.prototype.trim\<close> sees it, among the code units below 256:
  tab, line feed, vertical tab, form feed, carriage return, space, no-break space.
\<close>

definition is_space :: "char \<Rightarrow> bool" where
  "is_space c = ((of_char c :: nat) \<in> {9, 10, 11, 12, 13, 32, 160})"

definition js_trim :: "string \<Rightarrow> string" where
  "js_trim s = rev (dropWhile is_space (rev (dropWhile is_space s)))"

text \<open>\<^verbatim>\<open>s.split(c)\<close> for a one-character separator: never empty, \<^verbatim>\<open>"".split(c)\<close> is \<^verbatim>\<open>[""]\<close>.\<close>

fun split_on :: "char \<Rightarrow> string \<Rightarrow> string list" where
  "split_on c [] = [[]]"
| "split_on c (x # xs) =
     (if x = c then [] # split_on c xs
      else (case split_on c xs of
              [] \<Rightarrow> [[x]]
            | y # ys \<Rightarrow> (x # y) # ys))"

section \<open>Name validation (index.mjs, assertSafeName)\<close>

text \<open>The character classes of the regular expression \<^verbatim>\<open>/^[a-zA-Z0-9][a-zA-Z0-9._-]{0,127}$/\<close>.\<close>

definition is_alnum :: "char \<Rightarrow> bool" where
  "is_alnum c =
     (let n = (of_char c :: nat)
      in (97 \<le> n \<and> n \<le> 122) \<or> (65 \<le> n \<and> n \<le> 90) \<or> (48 \<le> n \<and> n \<le> 57))"

definition is_name_char :: "char \<Rightarrow> bool" where
  "is_name_char c = (is_alnum c \<or> c = CHR ''.'' \<or> c = CHR ''_'' \<or> c = CHR ''-'')"

text \<open>The regular expression's test: one character of the first class, then at most 127
  of the second, up to the end of the string.\<close>

fun name_regex :: "string \<Rightarrow> bool" where
  "name_regex [] = False"
| "name_regex (c # cs) = (is_alnum c \<and> list_all is_name_char cs \<and> length cs \<le> 127)"

text \<open>
  \<^verbatim>\<open>assertSafeName(kind, name)\<close>: both \<^verbatim>\<open>throw\<close>s are the spec's \<open>InvalidName\<close>. The
  function trims the name before it tests it, and returns the trimmed name.
\<close>

definition assertSafeName :: "string \<Rightarrow> jsval \<Rightarrow> error + string" where
  "assertSafeName kind name =
     (case name of
        JStr s \<Rightarrow>
          (if length (js_trim s) = 0 then Inl InvalidName
           else let n = js_trim s
                in if \<not> name_regex n then Inl InvalidName else Inr n)
      | _ \<Rightarrow> Inl InvalidName)"

text \<open>The name grammar in the specification's words: first character alphanumeric,
  the following ones alphanumeric, dot, underscore or hyphen, at most 128 in all.\<close>

definition name_grammar :: "string \<Rightarrow> bool" where
  "name_grammar s =
     (s \<noteq> [] \<and> is_alnum (hd s) \<and> list_all is_name_char (tl s) \<and> length s \<le> 128)"

section \<open>Start command of an agent (index.mjs, buildDefaultCommand and spawn_agent)\<close>

record cmd =
  cmd_command :: string
  cmd_args :: "string list"

definition ALLOWED_AGENT_TYPES :: "string list" where
  "ALLOWED_AGENT_TYPES = [''claude'', ''codex'', ''gemini'']"

definition buildDefaultCommand :: "string \<Rightarrow> error + cmd" where
  "buildDefaultCommand type =
     (if type = ''claude'' then Inr \<lparr>cmd_command = ''claude'', cmd_args = [''--dangerously-skip-permissions'']\<rparr>
      else if type = ''codex'' then Inr \<lparr>cmd_command = ''codex'', cmd_args = [''--yolo'']\<rparr>
      else if type = ''gemini'' then Inr \<lparr>cmd_command = ''gemini'', cmd_args = [''--yolo'']\<rparr>
      else Inl UnsupportedAgentType)"

text \<open>
  Lines 204 to 208 of \<^verbatim>\<open>spawn_agent\<close>: \<open>baseCmd\<close>, \<open>extraArgs\<close> and \<open>cmd\<close>. The options
  are whatever value the caller passed.
\<close>

definition baseCmd :: "string \<Rightarrow> jsval \<Rightarrow> error + cmd" where
  "baseCmd agentType options =
     (if truthy (js_or (js_get options ''command'') (js_get options ''cmd''))
      then Inr \<lparr>cmd_command = js_String (js_or (js_get options ''command'') (js_get options ''cmd'')),
                cmd_args = []\<rparr>
      else buildDefaultCommand agentType)"

definition extraArgs :: "jsval \<Rightarrow> string list" where
  "extraArgs options =
     (case js_get options ''args'' of
        JArr xs \<Rightarrow> map js_String xs
      | _ \<Rightarrow> [])"

definition resolveCommand :: "string \<Rightarrow> jsval \<Rightarrow> error + cmd" where
  "resolveCommand agentType options =
     (case baseCmd agentType options of
        Inl e \<Rightarrow> Inl e
      | Inr b \<Rightarrow> Inr \<lparr>cmd_command = cmd_command b, cmd_args = cmd_args b @ extraArgs options\<rparr>)"

section \<open>JSON objects and files\<close>

text \<open>
  Writing a property of an object: an existing key keeps its place and takes the new
  value, a new key goes last. \<^verbatim>\<open>{...v}\<close> copies the own enumerable properties of a
  value: the fields of an object, the indices of an array or of a string, nothing for
  the other values.
\<close>

fun obj_set :: "string \<Rightarrow> jsval \<Rightarrow> (string \<times> jsval) list \<Rightarrow> (string \<times> jsval) list" where
  "obj_set k v [] = [(k, v)]"
| "obj_set k v ((k', v') # kvs) =
     (if k = k' then (k, v) # kvs else (k', v') # obj_set k v kvs)"

fun js_spread :: "jsval \<Rightarrow> (string \<times> jsval) list" where
  "js_spread (JObj kvs) = kvs"
| "js_spread (JArr xs) = zip (map (\<lambda>i. dec_nat i) [0..<length xs]) xs"
| "js_spread (JStr s) = zip (map (\<lambda>i. dec_nat i) [0..<length s]) (map (\<lambda>c. JStr [c]) s)"
| "js_spread v = []"

text \<open>
  What \<^verbatim>\<open>JSON.parse\<close> reads back from what \<^verbatim>\<open>JSON.stringify\<close> wrote: a property whose
  value is \<^verbatim>\<open>undefined\<close> is dropped, \<^verbatim>\<open>undefined\<close> in an array and \<^verbatim>\<open>NaN\<close> become
  \<^verbatim>\<open>null\<close>.
\<close>

fun json_norm :: "jsval \<Rightarrow> jsval" where
  "json_norm (JArr xs) = JArr (map json_norm xs)"
| "json_norm (JObj kvs) =
     JObj (map (\<lambda>(k, v). (k, json_norm v)) (filter (\<lambda>(k, v). v \<noteq> JUndefined) kvs))"
| "json_norm JNaN = JNull"
| "json_norm JUndefined = JNull"
| "json_norm v = v"

text \<open>\<^verbatim>\<open>v.k\<close> without optional chaining raises a TypeError on \<^verbatim>\<open>null\<close> and
  \<^verbatim>\<open>undefined\<close>; the array methods (\<^verbatim>\<open>find\<close>, \<^verbatim>\<open>some\<close>, \<^verbatim>\<open>map\<close>, \<^verbatim>\<open>filter\<close>) exist on
  arrays only.\<close>

definition js_member :: "jsval \<Rightarrow> string \<Rightarrow> error + jsval" where
  "js_member v k = (if v = JNull \<or> v = JUndefined then Inl TypeError else Inr (js_get v k))"

definition as_array :: "jsval \<Rightarrow> error + jsval list" where
  "as_array v = (case v of JArr xs \<Rightarrow> Inr xs | _ \<Rightarrow> Inl TypeError)"

section \<open>Paths\<close>

text \<open>
  An absolute, normalised path is the list of its components (the root is \<open>[]\<close>).
  \<^verbatim>\<open>path.join(p, s)\<close> walks the components of \<open>s\<close> from \<open>p\<close>: an empty component and
  \<^verbatim>\<open>.\<close> stay, \<^verbatim>\<open>..\<close> goes up. \<^verbatim>\<open>path.resolve(s)\<close> starts from the root when \<open>s\<close> is
  absolute and from the working directory of the process otherwise.
\<close>

type_synonym path = "string list"

definition path_step :: "string \<Rightarrow> path \<Rightarrow> path" where
  "path_step c p =
     (if c = [] \<or> c = ''.'' then p else if c = ''..'' then butlast p else p @ [c])"

definition path_join :: "path \<Rightarrow> string \<Rightarrow> path" where
  "path_join p s = fold path_step (split_on CHR ''/'' s) p"

definition path_resolve :: "path \<Rightarrow> string \<Rightarrow> path" where
  "path_resolve wd s =
     (case s of
        [] \<Rightarrow> wd
      | c # cs \<Rightarrow> if c = CHR ''/'' then path_join [] s else path_join wd s)"

definition path_dirname :: "path \<Rightarrow> path" where
  "path_dirname p = butlast p"

definition path_str :: "path \<Rightarrow> string" where
  "path_str p = (if p = [] then ''/'' else concat (map (\<lambda>c. CHR ''/'' # c) p))"

text \<open>The sibling \<^verbatim>\<open>`${filePath}.tmp`\<close> of a file.\<close>

definition tmp_of :: "path \<Rightarrow> path" where
  "tmp_of p = (if p = [] then [''.tmp''] else butlast p @ [last p @ ''.tmp''])"

section \<open>The world: file system, clock and processes\<close>

text \<open>
  A file holds either a JSON value (what \<^verbatim>\<open>JSON.parse\<close> would read from it) or text
  that is not JSON (a log, a damaged file). A path names a directory, a file or nothing.
  A call of the file system fails for what the state of the file system decides: a
  file where a directory is needed, a directory where a file is needed, a missing
  entry. Permissions appear only where the program tests them (\<^verbatim>\<open>fs.accessSync\<close> in
  \<^verbatim>\<open>canWrite\<close>, as \<open>w_ok\<close>); a write the program directs to a place of the right kind
  is taken to go through.

  \<^verbatim>\<open>spawnSync\<close> runs a program to its end: \<open>spawn\<close> gives, for the program, its
  arguments and the state \<open>proc\<close> of everything outside this process (the tmux
  server), the result and the new state. Nothing is assumed about it. All the calls of
  \<^verbatim>\<open>new Date()\<close> of one operation read the same instant \<open>now\<close>.
\<close>

datatype content = Json jsval | Text string

datatype node = Dir | File content

record spawn_result =
  sp_status :: "int option"
  sp_stdout :: string
  sp_stderr :: string
  sp_error :: bool

record 'b world =
  nodes :: "path \<Rightarrow> node option"
  w_ok :: "path \<Rightarrow> bool"
  now :: string
  proc_cwd :: path
  os_tmpdir :: path
  proc :: 'b
  spawn :: "string \<Rightarrow> string list \<Rightarrow> 'b \<Rightarrow> spawn_result \<times> 'b"

text \<open>
  An operation takes the world and gives a result or an error, and the world as it
  left it: what was done before a \<^verbatim>\<open>throw\<close> stays done.
\<close>

type_synonym ('a, 'b) js = "'b world \<Rightarrow> (error + 'a) \<times> 'b world"

definition ret :: "'a \<Rightarrow> ('a, 'b) js" where
  "ret x = (\<lambda>w. (Inr x, w))"

definition throw :: "error \<Rightarrow> ('a, 'b) js" where
  "throw e = (\<lambda>w. (Inl e, w))"

definition bnd :: "('a, 'b) js \<Rightarrow> ('a \<Rightarrow> ('c, 'b) js) \<Rightarrow> ('c, 'b) js" where
  "bnd m f = (\<lambda>w. case m w of (Inl e, w') \<Rightarrow> (Inl e, w') | (Inr x, w') \<Rightarrow> f x w')"

definition catch :: "('a, 'b) js \<Rightarrow> (error \<Rightarrow> ('a, 'b) js) \<Rightarrow> ('a, 'b) js" where
  "catch m h = (\<lambda>w. case m w of (Inl e, w') \<Rightarrow> h e w' | (Inr x, w') \<Rightarrow> (Inr x, w'))"

definition gets :: "('b world \<Rightarrow> 'a) \<Rightarrow> ('a, 'b) js" where
  "gets f = (\<lambda>w. (Inr (f w), w))"

definition lift :: "error + 'a \<Rightarrow> ('a, 'b) js" where
  "lift r = (\<lambda>w. (r, w))"

subsection \<open>The calls of \<^verbatim>\<open>fs\<close>\<close>

definition is_file :: "'b world \<Rightarrow> path \<Rightarrow> bool" where
  "is_file w p = (case nodes w p of Some (File c) \<Rightarrow> True | _ \<Rightarrow> False)"

definition existsSync :: "path \<Rightarrow> 'b world \<Rightarrow> bool" where
  "existsSync p w = (nodes w p \<noteq> None)"

text \<open>\<^verbatim>\<open>fs.accessSync(p, W_OK)\<close> succeeds on an entry that exists and may be written.\<close>

definition accessSync :: "path \<Rightarrow> (unit, 'b) js" where
  "accessSync p = (\<lambda>w. if nodes w p \<noteq> None \<and> w_ok w p then (Inr (), w) else (Inl IoError, w))"

text \<open>\<^verbatim>\<open>fs.mkdirSync(p, {recursive: true})\<close>: every missing directory on the way is made;
  a file on the way is an error.\<close>

definition mkdirSync :: "path \<Rightarrow> (unit, 'b) js" where
  "mkdirSync p =
     (\<lambda>w. if list_ex (is_file w) (prefixes p) then (Inl IoError, w)
          else (Inr (), w\<lparr>nodes := fold (\<lambda>q m. m(q \<mapsto> Dir)) (prefixes p) (nodes w)\<rparr>))"

definition writeFileSync :: "path \<Rightarrow> content \<Rightarrow> (unit, 'b) js" where
  "writeFileSync p c =
     (\<lambda>w. if nodes w p = Some Dir \<or> nodes w (path_dirname p) \<noteq> Some Dir then (Inl IoError, w)
          else (Inr (), w\<lparr>nodes := (nodes w)(p \<mapsto> File c)\<rparr>))"

text \<open>\<^verbatim>\<open>fs.renameSync(a, b)\<close> of a file: it replaces a file at \<open>b\<close>, and fails on a
  directory at \<open>b\<close>.\<close>

definition renameSync :: "path \<Rightarrow> path \<Rightarrow> (unit, 'b) js" where
  "renameSync a b =
     (\<lambda>w. case nodes w a of
            Some (File c) \<Rightarrow>
              if nodes w b = Some Dir \<or> nodes w (path_dirname b) \<noteq> Some Dir then (Inl IoError, w)
              else (Inr (), w\<lparr>nodes := (nodes w)(a := None, b \<mapsto> File c)\<rparr>)
          | _ \<Rightarrow> (Inl IoError, w))"

definition unlinkSync :: "path \<Rightarrow> (unit, 'b) js" where
  "unlinkSync p =
     (\<lambda>w. if is_file w p then (Inr (), w\<lparr>nodes := (nodes w)(p := None)\<rparr>) else (Inl IoError, w))"

text \<open>\<^verbatim>\<open>fs.closeSync(fs.openSync(p, "a"))\<close>: an existing file is left as it is, a missing
  one is created empty.\<close>

definition touchAppend :: "path \<Rightarrow> (unit, 'b) js" where
  "touchAppend p =
     (\<lambda>w. case nodes w p of
            Some (File c) \<Rightarrow> (Inr (), w)
          | Some Dir \<Rightarrow> (Inl IoError, w)
          | None \<Rightarrow>
              if nodes w (path_dirname p) = Some Dir
              then (Inr (), w\<lparr>nodes := (nodes w)(p \<mapsto> File (Text []))\<rparr>)
              else (Inl IoError, w))"

section \<open>The registry (registry.mjs)\<close>

definition CCX_DIR :: string where "CCX_DIR = ''.ccx''"
definition PROJECTS_DIR :: string where "PROJECTS_DIR = ''projects''"
definition PROJECT_META_FILE :: string where "PROJECT_META_FILE = ''project.json''"
definition AGENTS_FILE :: string where "AGENTS_FILE = ''agents.json''"
definition CURRENT_PROJECT_FILE :: string where "CURRENT_PROJECT_FILE = ''current.json''"
definition LOGS_DIR :: string where "LOGS_DIR = ''logs''"

definition canWrite :: "path \<Rightarrow> 'b world \<Rightarrow> bool" where
  "canWrite dir w = (case accessSync dir w of (Inr u, w') \<Rightarrow> True | (Inl e, w') \<Rightarrow> False)"

text \<open>\<^verbatim>\<open>readJson\<close>: a missing file, a directory and text that does not parse all give
  the fallback.\<close>

definition readJson :: "path \<Rightarrow> jsval \<Rightarrow> 'b world \<Rightarrow> jsval" where
  "readJson filePath fallback w =
     (if \<not> existsSync filePath w then fallback
      else (case nodes w filePath of
              Some (File (Json v)) \<Rightarrow> v
            | _ \<Rightarrow> fallback))"

definition writeJsonAtomic :: "path \<Rightarrow> jsval \<Rightarrow> (unit, 'b) js" where
  "writeJsonAtomic filePath data =
     bnd (mkdirSync (path_dirname filePath)) (\<lambda>u.
     bnd (writeFileSync (tmp_of filePath) (Json (json_norm data))) (\<lambda>u.
     renameSync (tmp_of filePath) filePath))"

record registry =
  projectRoot :: path
  ccxDir :: path
  projectsDir :: path
  fallbackDir :: path
  fallbackProjectsDir :: path

definition priv_ensureBaseDirs :: "registry \<Rightarrow> (unit, 'b) js" where
  "priv_ensureBaseDirs reg =
     catch (mkdirSync (projectsDir reg)) (\<lambda>e. mkdirSync (fallbackProjectsDir reg))"

text \<open>The constructor; \<open>root\<close> is \<^verbatim>\<open>options.projectRoot\<close> when it is given.\<close>

definition AgentRegistry :: "path option \<Rightarrow> (registry, 'b) js" where
  "AgentRegistry root =
     bnd (gets (\<lambda>w. case root of Some r \<Rightarrow> r | None \<Rightarrow> proc_cwd w)) (\<lambda>r.
     bnd (gets os_tmpdir) (\<lambda>t.
     bnd (ret \<lparr>projectRoot = r,
               ccxDir = path_join r CCX_DIR,
               projectsDir = path_join (path_join r CCX_DIR) PROJECTS_DIR,
               fallbackDir = path_join t ''ccx-agent-mux'',
               fallbackProjectsDir = path_join (path_join t ''ccx-agent-mux'') PROJECTS_DIR\<rparr>) (\<lambda>reg.
     bnd (priv_ensureBaseDirs reg) (\<lambda>u. ret reg))))"

definition priv_getProjectsDir :: "registry \<Rightarrow> 'b world \<Rightarrow> path" where
  "priv_getProjectsDir reg w =
     (if canWrite (ccxDir reg) w then projectsDir reg else fallbackProjectsDir reg)"

definition getProjectDir :: "registry \<Rightarrow> jsval \<Rightarrow> 'b world \<Rightarrow> path" where
  "getProjectDir reg projectName w = path_join (priv_getProjectsDir reg w) (js_String projectName)"

definition getProjectMetaPath :: "registry \<Rightarrow> jsval \<Rightarrow> 'b world \<Rightarrow> path" where
  "getProjectMetaPath reg projectName w = path_join (getProjectDir reg projectName w) PROJECT_META_FILE"

definition getAgentsPath :: "registry \<Rightarrow> jsval \<Rightarrow> 'b world \<Rightarrow> path" where
  "getAgentsPath reg projectName w = path_join (getProjectDir reg projectName w) AGENTS_FILE"

definition getLogsDir :: "registry \<Rightarrow> jsval \<Rightarrow> 'b world \<Rightarrow> path" where
  "getLogsDir reg projectName w = path_join (getProjectDir reg projectName w) LOGS_DIR"

definition getAgentLogPath :: "registry \<Rightarrow> jsval \<Rightarrow> string \<Rightarrow> 'b world \<Rightarrow> path" where
  "getAgentLogPath reg projectName agentName w =
     path_join (getLogsDir reg projectName w) (agentName @ ''.log'')"

definition getCurrentPath :: "registry \<Rightarrow> 'b world \<Rightarrow> path" where
  "getCurrentPath reg w = path_join (priv_getProjectsDir reg w) CURRENT_PROJECT_FILE"

text \<open>\<^verbatim>\<open>ensureProject(projectName, meta = {})\<close>; \<open>meta\<close> is the list of the fields of the
  object.\<close>

definition ensureProject :: "registry \<Rightarrow> jsval \<Rightarrow> (string \<times> jsval) list \<Rightarrow> (unit, 'b) js" where
  "ensureProject reg projectName meta =
     bnd (gets (getProjectDir reg projectName)) (\<lambda>dir.
     bnd (gets (getLogsDir reg projectName)) (\<lambda>logsDir.
     bnd (mkdirSync dir) (\<lambda>u.
     bnd (mkdirSync logsDir) (\<lambda>u.
     bnd (gets (getProjectMetaPath reg projectName)) (\<lambda>projectMetaPath.
     bnd (gets (existsSync projectMetaPath)) (\<lambda>present.
     bnd (if \<not> present then
            bnd (gets now) (\<lambda>t.
            writeJsonAtomic projectMetaPath
              (JObj [(''name'', JStr (js_String projectName)),
                     (''cwd'', if truthy (js_get (JObj meta) ''cwd'')
                               then JStr (js_String (js_get (JObj meta) ''cwd'')) else JNull),
                     (''createdAt'', JStr t),
                     (''updatedAt'', JStr t)]))
          else if length meta > 0 then
            bnd (gets (readJson projectMetaPath (JObj []))) (\<lambda>current.
            bnd (gets now) (\<lambda>t.
            writeJsonAtomic projectMetaPath
              (JObj (obj_set ''updatedAt'' (JStr t)
                      (obj_set ''name'' (JStr (js_String projectName))
                        (fold (\<lambda>kv. obj_set (fst kv) (snd kv)) meta (js_spread current)))))))
          else ret ()) (\<lambda>u.
     bnd (gets (getAgentsPath reg projectName)) (\<lambda>agentsPath.
     bnd (gets (existsSync agentsPath)) (\<lambda>present.
     if \<not> present then
       bnd (gets now) (\<lambda>t.
       writeJsonAtomic agentsPath
         (JObj [(''project'', JStr (js_String projectName)),
                (''agents'', JArr []),
                (''updatedAt'', JStr t)]))
     else ret ())))))))))"

definition loadProjectMeta :: "registry \<Rightarrow> jsval \<Rightarrow> 'b world \<Rightarrow> jsval" where
  "loadProjectMeta reg projectName w = readJson (getProjectMetaPath reg projectName w) JNull w"

definition loadAgents :: "registry \<Rightarrow> jsval \<Rightarrow> 'b world \<Rightarrow> jsval" where
  "loadAgents reg projectName w =
     readJson (getAgentsPath reg projectName w)
       (JObj [(''project'', JStr (js_String projectName)),
              (''agents'', JArr []),
              (''updatedAt'', JNull)]) w"

definition saveAgents :: "registry \<Rightarrow> jsval \<Rightarrow> jsval \<Rightarrow> (unit, 'b) js" where
  "saveAgents reg projectName data =
     bnd (gets (getAgentsPath reg projectName)) (\<lambda>agentsPath.
     bnd (gets now) (\<lambda>t.
     writeJsonAtomic agentsPath
       (JObj (obj_set ''updatedAt'' (JStr t)
               (obj_set ''project'' (JStr (js_String projectName)) (js_spread data))))))"

definition getCurrentProject :: "registry \<Rightarrow> 'b world \<Rightarrow> jsval" where
  "getCurrentProject reg w =
     js_or (js_get (readJson (getCurrentPath reg w) JNull w) ''name'') JNull"

definition setCurrentProject :: "registry \<Rightarrow> jsval \<Rightarrow> (unit, 'b) js" where
  "setCurrentProject reg projectName =
     bnd (gets (getCurrentPath reg)) (\<lambda>filePath.
     bnd (gets now) (\<lambda>t.
     writeJsonAtomic filePath
       (JObj [(''name'', JStr (js_String projectName)), (''updatedAt'', JStr t)])))"

definition clearCurrentProject :: "registry \<Rightarrow> (unit, 'b) js" where
  "clearCurrentProject reg =
     bnd (gets (getCurrentPath reg)) (\<lambda>filePath.
     catch (unlinkSync filePath) (\<lambda>e. ret ()))"

section \<open>The tmux backend (tmux-backend.mjs)\<close>

definition shellEscapeSingleQuotes :: "string \<Rightarrow> string" where
  "shellEscapeSingleQuotes v =
     [CHR 0x27] @
     concat (map (\<lambda>c. if c = CHR 0x27 then [CHR 0x27, CHR 0x22, CHR 0x27, CHR 0x22, CHR 0x27]
                         else [c]) v) @
     [CHR 0x27]"

record tmux_backend =
  socketName :: string
  tmuxBinary :: string

record raw_result =
  ok :: bool
  status :: "int option"
  stdout :: string
  stderr :: string

definition priv_buildArgs :: "tmux_backend \<Rightarrow> jsval list \<Rightarrow> string list" where
  "priv_buildArgs tm argv = [''-L'', socketName tm] @ map js_String argv"

definition spawnSync :: "string \<Rightarrow> string list \<Rightarrow> (spawn_result, 'b) js" where
  "spawnSync prog argv =
     (\<lambda>w. case spawn w prog argv (proc w) of (r, b) \<Rightarrow> (Inr r, w\<lparr>proc := b\<rparr>))"

text \<open>\<^verbatim>\<open>runRaw\<close>: \<open>ok\<close> is an exit status of zero and no \<^verbatim>\<open>res.error\<close>. (The text of the
  error message it adds to \<open>stderr\<close> is not modelled; nothing reads it.)\<close>

definition runRaw :: "tmux_backend \<Rightarrow> jsval list \<Rightarrow> (raw_result, 'b) js" where
  "runRaw tm argv =
     bnd (spawnSync (tmuxBinary tm) (priv_buildArgs tm argv)) (\<lambda>res.
     if sp_error res
     then ret \<lparr>ok = False, status = sp_status res, stdout = sp_stdout res, stderr = sp_stderr res\<rparr>
     else ret \<lparr>ok = (sp_status res = Some 0), status = sp_status res,
               stdout = sp_stdout res, stderr = sp_stderr res\<rparr>)"

definition exec :: "tmux_backend \<Rightarrow> jsval list \<Rightarrow> (string, 'b) js" where
  "exec tm argv =
     bnd (runRaw tm argv) (\<lambda>res.
     if \<not> ok res then throw BackendCommandError else ret (stdout res))"

definition hasSession :: "tmux_backend \<Rightarrow> jsval \<Rightarrow> (bool, 'b) js" where
  "hasSession tm name =
     bnd (runRaw tm [JStr ''has-session'', JStr ''-t'', name]) (\<lambda>res. ret (ok res))"

text \<open>The \<open>args\<close> array of \<^verbatim>\<open>createSession\<close>.\<close>

definition new_session_args :: "jsval \<Rightarrow> jsval \<Rightarrow> jsval list" where
  "new_session_args name cwd =
     [JStr ''new-session'', JStr ''-d'', JStr ''-s'', name, JStr ''-n'', JStr ''main'']
     @ (if truthy cwd then [JStr ''-c'', cwd] else [])"

definition createSession :: "tmux_backend \<Rightarrow> jsval \<Rightarrow> jsval \<Rightarrow> (jsval, 'b) js" where
  "createSession tm name cwd =
     bnd (hasSession tm name) (\<lambda>present.
     if present then ret (JObj [(''created'', JBool False)])
     else
       bnd (exec tm (new_session_args name cwd)) (\<lambda>out.
       ret (JObj [(''created'', JBool True)])))"

definition killSession :: "tmux_backend \<Rightarrow> jsval \<Rightarrow> (jsval, 'b) js" where
  "killSession tm name =
     bnd (exec tm [JStr ''kill-session'', JStr ''-t'', name]) (\<lambda>out.
     ret (JObj [(''killed'', JBool True)]))"

text \<open>\<^verbatim>\<open>Number.parseInt(s, 10)\<close>: leading white space, a sign, then the longest run of
  digits; \<open>NaN\<close> when there is no digit.\<close>

definition is_digit :: "char \<Rightarrow> bool" where
  "is_digit c = (48 \<le> (of_char c :: nat) \<and> (of_char c :: nat) \<le> 57)"

definition digits_val :: "string \<Rightarrow> nat" where
  "digits_val ds = foldl (\<lambda>a c. 10 * a + (of_char c - 48)) 0 ds"

definition js_parseInt :: "string \<Rightarrow> jsval" where
  "js_parseInt s =
     (let t = dropWhile is_space s;
          neg = (t \<noteq> [] \<and> hd t = CHR ''-'');
          u = (if t \<noteq> [] \<and> (hd t = CHR ''-'' \<or> hd t = CHR ''+'') then tl t else t);
          ds = takeWhile is_digit u
      in if ds = [] then JNaN
         else JNum (if neg then - int (digits_val ds) else int (digits_val ds)))"

text \<open>One \<^verbatim>\<open>window_id|window_index|window_name\<close> line, as \<^verbatim>\<open>createWindow\<close> and
  \<^verbatim>\<open>listWindows\<close> read it. A missing field is \<^verbatim>\<open>undefined\<close>.\<close>

record window_info =
  windowId :: string
  windowIndex :: jsval
  windowName :: jsval

definition nth_field :: "string list \<Rightarrow> nat \<Rightarrow> jsval" where
  "nth_field parts i = (if i < length parts then JStr (parts ! i) else JUndefined)"

definition createWindow ::
  "tmux_backend \<Rightarrow> jsval \<Rightarrow> string \<Rightarrow> jsval \<Rightarrow> string \<Rightarrow> string list \<Rightarrow> (window_info, 'b) js" where
  "createWindow tm session wname cwd command commandArgs =
     bnd (exec tm ([JStr ''new-window'', JStr ''-d'', JStr ''-t'', session, JStr ''-n'', JStr wname,
                    JStr ''-P'', JStr ''-F'', JStr ''#{window_id}|#{window_index}|#{window_name}'']
                   @ (if truthy cwd then [JStr ''-c'', cwd] else [])
                   @ (if command \<noteq> [] then JStr command # map JStr commandArgs else []))) (\<lambda>out.
     let parts = split_on CHR ''|'' (js_trim out)
     in ret \<lparr>windowId = js_trim (js_String (nth_field parts 0)),
              windowIndex = js_parseInt (js_String (nth_field parts 1)),
              windowName = JStr (js_trim (js_String (js_or (nth_field parts 2) (JStr wname))))\<rparr>)"

text \<open>\<^verbatim>\<open>out.split("\n").map((s) => s.trim()).filter(Boolean)\<close>.\<close>

definition trimmed_lines :: "string \<Rightarrow> string list" where
  "trimmed_lines out = filter (\<lambda>l. l \<noteq> []) (map js_trim (split_on (CHR 0x0A) out))"

definition window_of_line :: "string \<Rightarrow> window_info" where
  "window_of_line line =
     (let parts = split_on CHR ''|'' line
      in \<lparr>windowId = js_trim (js_String (nth_field parts 0)),
          windowIndex = js_parseInt (js_String (nth_field parts 1)),
          windowName = (case nth_field parts 2 of
                          JStr n \<Rightarrow> JStr (js_trim n)
                        | v \<Rightarrow> JUndefined)\<rparr>)"

definition listWindows :: "tmux_backend \<Rightarrow> jsval \<Rightarrow> (window_info list, 'b) js" where
  "listWindows tm session =
     bnd (runRaw tm [JStr ''list-windows'', JStr ''-t'', session, JStr ''-F'',
                     JStr ''#{window_id}|#{window_index}|#{window_name}'']) (\<lambda>res.
     if \<not> ok res then ret []
     else ret (map window_of_line (trimmed_lines (stdout res))))"

definition killWindow :: "tmux_backend \<Rightarrow> jsval \<Rightarrow> (jsval, 'b) js" where
  "killWindow tm target =
     bnd (exec tm [JStr ''kill-window'', JStr ''-t'', target]) (\<lambda>out.
     ret (JObj [(''killed'', JBool True)]))"

definition getWindowFirstPaneId :: "tmux_backend \<Rightarrow> jsval \<Rightarrow> (string, 'b) js" where
  "getWindowFirstPaneId tm windowTarget =
     bnd (exec tm [JStr ''list-panes'', JStr ''-t'', windowTarget, JStr ''-F'', JStr ''#{pane_id}'']) (\<lambda>out.
     case trimmed_lines out of
       [] \<Rightarrow> throw NoPaneFound
     | paneId # rest \<Rightarrow> ret paneId)"

definition setWindowOption :: "tmux_backend \<Rightarrow> jsval \<Rightarrow> string \<Rightarrow> jsval \<Rightarrow> (unit, 'b) js" where
  "setWindowOption tm windowTarget key v =
     bnd (exec tm [JStr ''set-option'', JStr ''-w'', JStr ''-t'', windowTarget, JStr key,
                   JStr (js_String v)]) (\<lambda>out. ret ())"

definition pipePane :: "tmux_backend \<Rightarrow> jsval \<Rightarrow> string \<Rightarrow> bool \<Rightarrow> (unit, 'b) js" where
  "pipePane tm paneTarget shellCommand onlyIfNotRunning =
     bnd (exec tm ([JStr ''pipe-pane'', JStr ''-t'', paneTarget]
                   @ (if onlyIfNotRunning then [JStr ''-o''] else [])
                   @ [JStr shellCommand])) (\<lambda>out. ret ())"

definition sendKeys :: "tmux_backend \<Rightarrow> jsval \<Rightarrow> jsval list \<Rightarrow> (unit, 'b) js" where
  "sendKeys tm paneTarget keys =
     bnd (exec tm ([JStr ''send-keys'', JStr ''-t'', paneTarget]
                   @ map (\<lambda>k. JStr (js_String k)) keys)) (\<lambda>out. ret ())"

definition selectWindow :: "tmux_backend \<Rightarrow> jsval \<Rightarrow> (unit, 'b) js" where
  "selectWindow tm targetWindow =
     bnd (exec tm [JStr ''select-window'', JStr ''-t'', targetWindow]) (\<lambda>out. ret ())"

definition listClients :: "tmux_backend \<Rightarrow> (string list, 'b) js" where
  "listClients tm =
     bnd (runRaw tm [JStr ''list-clients'', JStr ''-F'', JStr ''#{client_tty}'']) (\<lambda>res.
     if \<not> ok res then ret []
     else ret (trimmed_lines (stdout res)))"

definition switchClient :: "tmux_backend \<Rightarrow> string \<Rightarrow> jsval \<Rightarrow> (unit, 'b) js" where
  "switchClient tm clientTty session =
     bnd (exec tm [JStr ''switch-client'', JStr ''-c'', JStr clientTty, JStr ''-t'', session])
       (\<lambda>out. ret ())"

definition capturePane :: "tmux_backend \<Rightarrow> jsval \<Rightarrow> int \<Rightarrow> (string, 'b) js" where
  "capturePane tm paneTarget history =
     bnd (runRaw tm [JStr ''capture-pane'', JStr ''-t'', paneTarget, JStr ''-p'', JStr ''-S'',
                     JStr (''-'' @ js_String (JNum history))]) (\<lambda>res.
     ret (if ok res then stdout res else []))"

section \<open>The orchestrator (index.mjs, class AgentMux)\<close>

record agent_mux =
  tmux :: tmux_backend
  registry :: registry

definition priv_requireCurrentProject :: "agent_mux \<Rightarrow> (jsval, 'b) js" where
  "priv_requireCurrentProject mx =
     bnd (gets (getCurrentProject (registry mx))) (\<lambda>name.
     if \<not> truthy name then throw NoCurrentProject else ret name)"

text \<open>\<^verbatim>\<open>(data.agents || [])\<close> as the array the methods \<^verbatim>\<open>find\<close>, \<^verbatim>\<open>some\<close>, \<^verbatim>\<open>map\<close> and
  \<^verbatim>\<open>filter\<close> run on.\<close>

definition agents_of :: "jsval \<Rightarrow> error + jsval list" where
  "agents_of data =
     (case js_member data ''agents'' of
        Inl e \<Rightarrow> Inl e
      | Inr v \<Rightarrow> as_array (js_or v (JArr [])))"

definition priv_loadAgent :: "agent_mux \<Rightarrow> jsval \<Rightarrow> string \<Rightarrow> (jsval \<times> jsval, 'b) js" where
  "priv_loadAgent mx project agentName =
     bnd (gets (loadAgents (registry mx) project)) (\<lambda>data.
     bnd (lift (agents_of data)) (\<lambda>agents.
     case find (\<lambda>a. js_get a ''name'' = JStr agentName) agents of
       None \<Rightarrow> throw AgentNotFound
     | Some agent \<Rightarrow> ret (data, agent)))"

subsection \<open>Project management\<close>

text \<open>\<^verbatim>\<open>cwd ? path.resolve(String(cwd)) : null\<close>.\<close>

definition resolve_cwd :: "jsval \<Rightarrow> 'b world \<Rightarrow> jsval" where
  "resolve_cwd cwd w =
     (if truthy cwd then JStr (path_str (path_resolve (proc_cwd w) (js_String cwd))) else JNull)"

definition create_project :: "agent_mux \<Rightarrow> jsval \<Rightarrow> jsval \<Rightarrow> (jsval, 'b) js" where
  "create_project mx name cwd =
     bnd (lift (assertSafeName ''project'' name)) (\<lambda>project.
     bnd (gets (resolve_cwd cwd)) (\<lambda>resolvedCwd.
     bnd (ensureProject (registry mx) (JStr project) [(''cwd'', resolvedCwd)]) (\<lambda>u.
     bnd (createSession (tmux mx) (JStr project) resolvedCwd) (\<lambda>tmuxRes.
     bnd (setCurrentProject (registry mx) (JStr project)) (\<lambda>u.
     bnd (gets (getProjectDir (registry mx) (JStr project))) (\<lambda>storageDir.
     ret (JObj [(''project'', JStr project),
                (''cwd'', resolvedCwd),
                (''created'', js_get tmuxRes ''created''),
                (''storageDir'', JStr (path_str storageDir))])))))))"

text \<open>The loop \<^verbatim>\<open>for (const tty of clients) { try { this.tmux.switchClient(tty, project); }
  catch { } }\<close> of \<^verbatim>\<open>switch_project\<close> and \<^verbatim>\<open>attach_agent\<close>.\<close>

fun switch_clients :: "tmux_backend \<Rightarrow> string list \<Rightarrow> jsval \<Rightarrow> (unit, 'b) js" where
  "switch_clients tm [] project = ret ()"
| "switch_clients tm (tty # rest) project =
     bnd (catch (switchClient tm tty project) (\<lambda>e. ret ())) (\<lambda>u.
     switch_clients tm rest project)"

definition switch_project :: "agent_mux \<Rightarrow> jsval \<Rightarrow> (jsval, 'b) js" where
  "switch_project mx name =
     bnd (lift (assertSafeName ''project'' name)) (\<lambda>project.
     bnd (hasSession (tmux mx) (JStr project)) (\<lambda>present.
     bnd (if \<not> present then throw SessionNotFound else ret ()) (\<lambda>u.
     bnd (ensureProject (registry mx) (JStr project) []) (\<lambda>u.
     bnd (setCurrentProject (registry mx) (JStr project)) (\<lambda>u.
     bnd (listClients (tmux mx)) (\<lambda>clients.
     bnd (switch_clients (tmux mx) clients (JStr project)) (\<lambda>u.
     ret (JObj [(''project'', JStr project),
                (''switched'', JBool True),
                (''clients'', JNum (int (length clients)))]))))))))"

definition close_project :: "agent_mux \<Rightarrow> jsval \<Rightarrow> (jsval, 'b) js" where
  "close_project mx name =
     bnd (lift (assertSafeName ''project'' name)) (\<lambda>project.
     bnd (gets (getCurrentProject (registry mx))) (\<lambda>current.
     bnd (hasSession (tmux mx) (JStr project)) (\<lambda>present.
     bnd (if present then bnd (killSession (tmux mx) (JStr project)) (\<lambda>r. ret True)
          else ret False) (\<lambda>killed.
     bnd (if current = JStr project then clearCurrentProject (registry mx) else ret ()) (\<lambda>u.
     ret (JObj [(''project'', JStr project),
                (''killed'', JBool killed),
                (''clearedCurrent'', JBool (current = JStr project))]))))))"

subsection \<open>Agent management\<close>

text \<open>The registry entry of an agent, as \<^verbatim>\<open>spawn_agent\<close> builds it.\<close>

definition cmd_json :: "cmd \<Rightarrow> jsval" where
  "cmd_json c = JObj [(''command'', JStr (cmd_command c)), (''args'', JArr (map JStr (cmd_args c)))]"

definition spawn_agent :: "agent_mux \<Rightarrow> jsval \<Rightarrow> jsval \<Rightarrow> jsval \<Rightarrow> (jsval, 'b) js" where
  "spawn_agent mx type name options0 =
     (let options = (if options0 = JUndefined then JObj [] else options0) in
     bnd (priv_requireCurrentProject mx) (\<lambda>project.
     bnd (lift (assertSafeName ''agent'' name)) (\<lambda>agentName.
     bnd (ret (js_trim (js_String (js_or type (JStr []))))) (\<lambda>agentType.
     bnd (if agentType \<notin> set ALLOWED_AGENT_TYPES then throw UnsupportedAgentType else ret ()) (\<lambda>u.
     bnd (hasSession (tmux mx) project) (\<lambda>present.
     bnd (if \<not> present then throw SessionNotFound else ret ()) (\<lambda>u.
     bnd (ensureProject (registry mx) project []) (\<lambda>u.
     bnd (gets (loadAgents (registry mx) project)) (\<lambda>agentsData.
     bnd (lift (agents_of agentsData)) (\<lambda>agents.
     bnd (if list_ex (\<lambda>a. js_get a ''name'' = JStr agentName) agents
          then throw AgentAlreadyExists else ret ()) (\<lambda>u.
     bnd (gets (loadProjectMeta (registry mx) project)) (\<lambda>projectMeta.
     bnd (gets (\<lambda>w. js_or (js_get projectMeta ''cwd'') (JStr (path_str (proc_cwd w))))) (\<lambda>defaultCwd.
     bnd (gets (\<lambda>w. if truthy (js_get options ''cwd'')
                     then JStr (path_str (path_resolve (proc_cwd w) (js_String (js_get options ''cwd''))))
                     else defaultCwd)) (\<lambda>agentCwd.
     bnd (lift (resolveCommand agentType options)) (\<lambda>cmd.
     bnd (createWindow (tmux mx) project agentName agentCwd (cmd_command cmd) (cmd_args cmd)) (\<lambda>win.
     bnd (setWindowOption (tmux mx) (JStr (windowId win)) ''@ccx_agent_name'' (JStr agentName)) (\<lambda>u.
     bnd (setWindowOption (tmux mx) (JStr (windowId win)) ''@ccx_agent_type'' (JStr agentType)) (\<lambda>u.
     bnd (getWindowFirstPaneId (tmux mx) (JStr (windowId win))) (\<lambda>paneId.
     bnd (gets (getAgentLogPath (registry mx) project agentName)) (\<lambda>logPath.
     bnd (mkdirSync (path_dirname logPath)) (\<lambda>u.
     bnd (catch (touchAppend logPath) (\<lambda>e. ret ())) (\<lambda>u.
     bnd (pipePane (tmux mx) (JStr paneId)
            (''cat >> '' @ shellEscapeSingleQuotes (path_str logPath)) False) (\<lambda>u.
     bnd (gets now) (\<lambda>t.
     bnd (ret (JObj [(''name'', JStr agentName),
                     (''type'', JStr agentType),
                     (''project'', project),
                     (''windowId'', JStr (windowId win)),
                     (''windowIndex'', windowIndex win),
                     (''paneId'', JStr paneId),
                     (''cwd'', agentCwd),
                     (''command'', cmd_json cmd),
                     (''logPath'', JStr (path_str logPath)),
                     (''createdAt'', JStr t)])) (\<lambda>entry.
     bnd (saveAgents (registry mx) project
            (JObj (obj_set ''agents'' (JArr (agents @ [entry])) (js_spread agentsData)))) (\<lambda>u.
     ret entry))))))))))))))))))))))))))"

text \<open>\<^verbatim>\<open>{...a, alive: a?.windowId ? windowIds.has(a.windowId) : false}\<close>; the set holds
  the strings \<open>windowIds\<close>.\<close>

definition annotate_alive :: "string list \<Rightarrow> jsval \<Rightarrow> jsval" where
  "annotate_alive windowIds a =
     JObj (obj_set ''alive''
             (JBool (if truthy (js_get a ''windowId'')
                     then js_get a ''windowId'' \<in> JStr ` set windowIds
                     else False))
             (js_spread a))"

definition list_agents :: "agent_mux \<Rightarrow> jsval \<Rightarrow> (jsval, 'b) js" where
  "list_agents mx project =
     bnd (if truthy project
          then bnd (lift (assertSafeName ''project'' project)) (\<lambda>n. ret (JStr n))
          else priv_requireCurrentProject mx) (\<lambda>proj.
     bnd (gets (loadAgents (registry mx) proj)) (\<lambda>data.
     bnd (hasSession (tmux mx) proj) (\<lambda>present.
     bnd (if present
          then bnd (listWindows (tmux mx) proj) (\<lambda>windows. ret (map windowId windows))
          else ret []) (\<lambda>windowIds.
     bnd (lift (agents_of data)) (\<lambda>agents.
     ret (JObj [(''project'', proj),
                (''agents'', JArr (map (annotate_alive windowIds) agents))]))))))"

text \<open>\<^verbatim>\<open>Buffer.byteLength(s, "utf-8")\<close> for code units below 256.\<close>

definition byteLength :: "string \<Rightarrow> nat" where
  "byteLength s = sum_list (map (\<lambda>c. if (of_char c :: nat) < 128 then 1 else 2) s)"

definition send_to_window :: "agent_mux \<Rightarrow> jsval \<Rightarrow> jsval \<Rightarrow> (jsval, 'b) js" where
  "send_to_window mx wname text =
     bnd (priv_requireCurrentProject mx) (\<lambda>project.
     bnd (ret (JStr (js_String project @ '':'' @ js_String wname))) (\<lambda>target.
     bnd (ret (js_String (if text = JNull \<or> text = JUndefined then JStr [] else text))) (\<lambda>payload.
     bnd (sendKeys (tmux mx) target [JStr ''-l'', JStr payload]) (\<lambda>u.
     bnd (spawnSync ''sleep'' [''0.05'']) (\<lambda>r.
     bnd (sendKeys (tmux mx) target [JStr ''Enter'']) (\<lambda>u.
     ret (JObj [(''project'', project),
                (''window'', wname),
                (''sent'', JBool True),
                (''bytes'', JNum (int (byteLength payload)))])))))))"

definition send_to_agent :: "agent_mux \<Rightarrow> jsval \<Rightarrow> jsval \<Rightarrow> (jsval, 'b) js" where
  "send_to_agent mx name text =
     bnd (priv_requireCurrentProject mx) (\<lambda>project.
     bnd (lift (assertSafeName ''agent'' name)) (\<lambda>agentName.
     bnd (priv_loadAgent mx project agentName) (\<lambda>(data, agent).
     bnd (if truthy (js_get agent ''paneId'') then ret (js_get agent ''paneId'')
          else bnd (getWindowFirstPaneId (tmux mx) (js_get agent ''windowId'')) (\<lambda>p. ret (JStr p))) (\<lambda>paneId.
     bnd (ret (js_String (if text = JNull \<or> text = JUndefined then JStr [] else text))) (\<lambda>payload.
     bnd (sendKeys (tmux mx) paneId [JStr ''-l'', JStr payload]) (\<lambda>u.
     bnd (spawnSync ''sleep'' [''0.05'']) (\<lambda>r.
     bnd (sendKeys (tmux mx) paneId [JStr ''Enter'']) (\<lambda>u.
     ret (JObj [(''project'', project),
                (''agent'', JStr agentName),
                (''sent'', JBool True),
                (''bytes'', JNum (int (byteLength payload)))])))))))))"

text \<open>\<^verbatim>\<open>xs.slice(k)\<close>: a negative \<open>k\<close> counts from the end, and \<open>-0\<close> is \<open>0\<close>.\<close>

definition js_slice :: "int \<Rightarrow> 'a list \<Rightarrow> 'a list" where
  "js_slice k xs =
     (if k < 0 then drop (nat (int (length xs) + k)) xs else drop (nat k) xs)"

definition read_agent_output :: "agent_mux \<Rightarrow> jsval \<Rightarrow> int \<Rightarrow> (jsval, 'b) js" where
  "read_agent_output mx name lines =
     bnd (priv_requireCurrentProject mx) (\<lambda>project.
     bnd (lift (assertSafeName ''agent'' name)) (\<lambda>agentName.
     bnd (priv_loadAgent mx project agentName) (\<lambda>(data, agent).
     bnd (if truthy (js_get agent ''paneId'') then ret (js_get agent ''paneId'')
          else bnd (getWindowFirstPaneId (tmux mx) (js_get agent ''windowId'')) (\<lambda>p. ret (JStr p))) (\<lambda>paneId.
     bnd (capturePane (tmux mx) paneId (max (lines * 10) 2000)) (\<lambda>rawOutput.
     bnd (ret (js_slice (- lines)
                 (filter (\<lambda>line. length (js_trim line) > 0) (split_on (CHR 0x0A) rawOutput)))) (\<lambda>outputLines.
     bnd (ret (join [CHR 0x0A] outputLines)) (\<lambda>output.
     ret (JObj [(''project'', project),
                (''agent'', JStr agentName),
                (''lines'', JNum lines),
                (''output'', JStr output)]))))))))"

definition interrupt_agent :: "agent_mux \<Rightarrow> jsval \<Rightarrow> (jsval, 'b) js" where
  "interrupt_agent mx name =
     bnd (priv_requireCurrentProject mx) (\<lambda>project.
     bnd (lift (assertSafeName ''agent'' name)) (\<lambda>agentName.
     bnd (priv_loadAgent mx project agentName) (\<lambda>(data, agent).
     bnd (if truthy (js_get agent ''paneId'') then ret (js_get agent ''paneId'')
          else bnd (getWindowFirstPaneId (tmux mx) (js_get agent ''windowId'')) (\<lambda>p. ret (JStr p))) (\<lambda>paneId.
     bnd (sendKeys (tmux mx) paneId [JStr ''C-c'']) (\<lambda>u.
     ret (JObj [(''project'', project),
                (''agent'', JStr agentName),
                (''interrupted'', JBool True)]))))))"

definition kill_agent :: "agent_mux \<Rightarrow> jsval \<Rightarrow> (jsval, 'b) js" where
  "kill_agent mx name =
     bnd (priv_requireCurrentProject mx) (\<lambda>project.
     bnd (lift (assertSafeName ''agent'' name)) (\<lambda>agentName.
     bnd (priv_loadAgent mx project agentName) (\<lambda>(data, agent).
     bnd (catch
            (bnd (killWindow (tmux mx)
                    (js_or (js_get agent ''windowId'')
                       (JStr (js_String project @ '':'' @ js_String (js_get agent ''windowIndex'')))))
                 (\<lambda>r. ret ()))
            (\<lambda>e. ret ())) (\<lambda>u.
     bnd (lift (agents_of data)) (\<lambda>agents.
     bnd (ret (filter (\<lambda>a. js_get a ''name'' \<noteq> JStr agentName) agents)) (\<lambda>nextAgents.
     bnd (saveAgents (registry mx) project
            (JObj (obj_set ''agents'' (JArr nextAgents) (js_spread data)))) (\<lambda>u.
     ret (JObj [(''project'', project),
                (''agent'', JStr agentName),
                (''killed'', JBool True)]))))))))"

definition attach_agent :: "agent_mux \<Rightarrow> jsval \<Rightarrow> (jsval, 'b) js" where
  "attach_agent mx name =
     bnd (priv_requireCurrentProject mx) (\<lambda>project.
     bnd (lift (assertSafeName ''agent'' name)) (\<lambda>agentName.
     bnd (priv_loadAgent mx project agentName) (\<lambda>(data, agent).
     bnd (listClients (tmux mx)) (\<lambda>clients.
     bnd (switch_clients (tmux mx) clients project) (\<lambda>u.
     bnd (selectWindow (tmux mx)
            (js_or (js_get agent ''windowId'')
               (JStr (js_String project @ '':'' @ js_String (js_get agent ''windowIndex''))))) (\<lambda>u.
     ret (JObj [(''project'', project),
                (''agent'', JStr agentName),
                (''attached'', JBool True),
                (''clients'', JNum (int (length clients)))])))))))"

section \<open>Notions used to state the properties\<close>

text \<open>A process that ended with status 0 and without a spawn error: what \<^verbatim>\<open>runRaw\<close>
  reports as \<open>ok\<close>. \<open>tmux_run\<close> is the one process a call of \<^verbatim>\<open>runRaw\<close> runs.\<close>

definition spawn_ok :: "spawn_result \<Rightarrow> bool" where
  "spawn_ok r = (sp_status r = Some 0 \<and> \<not> sp_error r)"

definition tmux_run :: "tmux_backend \<Rightarrow> jsval list \<Rightarrow> 'b world \<Rightarrow> spawn_result \<times> 'b" where
  "tmux_run tm argv w = spawn w (tmuxBinary tm) (priv_buildArgs tm argv) (proc w)"

text \<open>The window identifiers the backend lists for the session of a project, none when
  the session does not exist: \<^verbatim>\<open>hasSession\<close>, then \<^verbatim>\<open>listWindows\<close>.\<close>

definition live_window_ids :: "tmux_backend \<Rightarrow> jsval \<Rightarrow> 'b world \<Rightarrow> string list" where
  "live_window_ids tm proj w =
     (case hasSession tm proj w of
        (Inr True, w1) \<Rightarrow>
          (case listWindows tm proj w1 of
             (Inr windows, w2) \<Rightarrow> map windowId windows
           | (Inl e, w2) \<Rightarrow> [])
      | (r, w1) \<Rightarrow> [])"

text \<open>A registry whose directories are the ones the constructor computes from its
  two roots.\<close>

definition constructed :: "registry \<Rightarrow> bool" where
  "constructed reg =
     (ccxDir reg = path_join (projectRoot reg) CCX_DIR \<and>
      projectsDir reg = path_join (ccxDir reg) PROJECTS_DIR \<and>
      fallbackProjectsDir reg = path_join (fallbackDir reg) PROJECTS_DIR)"

text \<open>The place of a JSON file is free: no file stands where a directory of its path
  is needed, and no directory where the file or its temporary sibling go. Then
  \<^verbatim>\<open>writeJsonAtomic\<close> goes through.\<close>

definition json_slot_free :: "path \<Rightarrow> 'b world \<Rightarrow> bool" where
  "json_slot_free p w =
     (\<not> list_ex (is_file w) (prefixes (path_dirname p)) \<and>
      nodes w (tmp_of p) \<noteq> Some Dir \<and> nodes w p \<noteq> Some Dir)"

text \<open>The directories of a project and its metadata file are in place, as
  \<^verbatim>\<open>ensureProject\<close> leaves them.\<close>

definition project_ready :: "registry \<Rightarrow> jsval \<Rightarrow> 'b world \<Rightarrow> bool" where
  "project_ready reg projectName w =
     (list_all (\<lambda>q. nodes w q = Some Dir) (prefixes (getLogsDir reg projectName w)) \<and>
      existsSync (getProjectMetaPath reg projectName w) w)"

text \<open>Nothing stands in the way of the files of project \<open>n\<close>: its log directory is
  no file, the places of its metadata, of its agent list and of the pointer are free,
  and making directories cannot change the root test (\<^verbatim>\<open>.ccx\<close> exists or may not be
  written).\<close>

definition storage_free :: "registry \<Rightarrow> string \<Rightarrow> 'b world \<Rightarrow> bool" where
  "storage_free reg n w =
     (\<not> is_file w (getLogsDir reg (JStr n) w) \<and>
      json_slot_free (getProjectMetaPath reg (JStr n) w) w \<and>
      json_slot_free (getAgentsPath reg (JStr n) w) w \<and>
      json_slot_free (getCurrentPath reg w) w \<and>
      (nodes w (ccxDir reg) \<noteq> None \<or> \<not> w_ok w (ccxDir reg)))"

text \<open>The storage of project \<open>n\<close> as \<^verbatim>\<open>create_project\<close> leaves it: the directories and
  the three JSON files are in place and no temporary file is left.\<close>

definition settled :: "registry \<Rightarrow> string \<Rightarrow> 'b world \<Rightarrow> bool" where
  "settled reg n w =
     (list_all (\<lambda>q. nodes w q = Some Dir) (prefixes (priv_getProjectsDir reg w @ [n, ''logs''])) \<and>
      is_file w (priv_getProjectsDir reg w @ [n, ''project.json'']) \<and>
      is_file w (priv_getProjectsDir reg w @ [n, ''agents.json'']) \<and>
      is_file w (priv_getProjectsDir reg w @ [''current.json'']) \<and>
      nodes w (priv_getProjectsDir reg w @ [n, ''project.json.tmp'']) = None \<and>
      nodes w (priv_getProjectsDir reg w @ [''current.json.tmp'']) = None \<and>
      nodes w (priv_getProjectsDir reg w @ [n, ''agents.json.tmp'']) \<noteq> Some Dir \<and>
      (nodes w (ccxDir reg) \<noteq> None \<or> \<not> w_ok w (ccxDir reg)))"

text \<open>A value given as a name passes the name check: it is a string whose trimmed
  form satisfies the grammar.\<close>

definition trimmed_name_ok :: "jsval \<Rightarrow> bool" where
  "trimmed_name_ok v = (case v of JStr s \<Rightarrow> name_grammar (js_trim s) | _ \<Rightarrow> False)"

text \<open>An operation that raises \<open>InvalidName\<close> in no world.\<close>

definition never_invalid :: "('a, 'b) js \<Rightarrow> bool" where
  "never_invalid m = (\<forall>w. fst (m w) \<noteq> Inl InvalidName)"

section \<open>A test double of the tmux server\<close>

text \<open>
  The theorems below hold for every behaviour of the programs \<^verbatim>\<open>spawnSync\<close> runs. To
  run the operations on concrete inputs, \<open>fake_spawn\<close> plays a small tmux server: it
  knows the sessions that exist, prints a fixed window list and a fixed pane buffer, and
  refuses \<^verbatim>\<open>kill-window\<close> (the window is gone) and every command it does not know.
\<close>

record fake_tmux =
  f_sessions :: "string list"
  f_windows :: string
  f_pane :: string

definition arg_at :: "nat \<Rightarrow> string list \<Rightarrow> string" where
  "arg_at i argv = (if i < length argv then argv ! i else [])"

definition exit_with :: "int \<Rightarrow> string \<Rightarrow> spawn_result" where
  "exit_with n out = \<lparr>sp_status = Some n, sp_stdout = out, sp_stderr = [], sp_error = False\<rparr>"

definition fake_spawn :: "string \<Rightarrow> string list \<Rightarrow> fake_tmux \<Rightarrow> spawn_result \<times> fake_tmux" where
  "fake_spawn prog argv st =
     (let c = arg_at 2 argv in
      if prog = ''sleep'' then (exit_with 0 [], st)
      else if c = ''has-session'' then
        (if arg_at 4 argv \<in> set (f_sessions st) then (exit_with 0 [], st) else (exit_with 1 [], st))
      else if c = ''new-session'' then
        (if arg_at 5 argv \<in> set (f_sessions st) then (exit_with 1 [], st)
         else (exit_with 0 [], st\<lparr>f_sessions := arg_at 5 argv # f_sessions st\<rparr>))
      else if c = ''kill-session'' then
        (if arg_at 4 argv \<in> set (f_sessions st)
         then (exit_with 0 [], st\<lparr>f_sessions := removeAll (arg_at 4 argv) (f_sessions st)\<rparr>)
         else (exit_with 1 [], st))
      else if c = ''new-window'' then (exit_with 0 (''@7|1|'' @ arg_at 7 argv @ [CHR 0x0A]), st)
      else if c = ''list-panes'' then (exit_with 0 (''%7'' @ [CHR 0x0A]), st)
      else if c = ''list-windows'' then (exit_with 0 (f_windows st), st)
      else if c = ''capture-pane'' then (exit_with 0 (f_pane st), st)
      else if c = ''send-keys'' \<or> c = ''set-option'' \<or> c = ''pipe-pane'' then (exit_with 0 [], st)
      else (exit_with 1 [], st))"

text \<open>A registry rooted at \<^verbatim>\<open>/w\<close>, an orchestrator over it, and worlds to run them in.\<close>

definition reg0 :: registry where
  "reg0 = \<lparr>projectRoot = [''w''],
           ccxDir = [''w'', ''.ccx''],
           projectsDir = [''w'', ''.ccx'', ''projects''],
           fallbackDir = [''tmp'', ''ccx-agent-mux''],
           fallbackProjectsDir = [''tmp'', ''ccx-agent-mux'', ''projects'']\<rparr>"

definition mx0 :: agent_mux where
  "mx0 = \<lparr>tmux = \<lparr>socketName = ''ccx'', tmuxBinary = ''tmux''\<rparr>, registry = reg0\<rparr>"

definition tmux0 :: fake_tmux where
  "tmux0 = \<lparr>f_sessions = [], f_windows = [], f_pane = []\<rparr>"

definition world_with :: "(path \<times> node) list \<Rightarrow> fake_tmux \<Rightarrow> fake_tmux world" where
  "world_with fs st =
     \<lparr>nodes = map_of fs, w_ok = (\<lambda>p. True), now = ''T0'', proc_cwd = [''w''],
      os_tmpdir = [''tmp''], proc = st, spawn = fake_spawn\<rparr>"

definition demo_fs :: "(path \<times> node) list" where
  "demo_fs =
     [([], Dir), ([''w''], Dir), ([''w'', ''.ccx''], Dir), ([''w'', ''.ccx'', ''projects''], Dir),
      ([''w'', ''.ccx'', ''projects'', ''demo''], Dir),
      ([''w'', ''.ccx'', ''projects'', ''demo'', ''logs''], Dir),
      ([''w'', ''.ccx'', ''projects'', ''demo'', ''project.json''],
         File (Json (JObj [(''name'', JStr ''demo''), (''cwd'', JNull)]))),
      ([''w'', ''.ccx'', ''projects'', ''demo'', ''agents.json''],
         File (Json (JObj [(''project'', JStr ''demo''),
                           (''agents'',
                            JArr [JObj [(''name'', JStr ''a1''), (''windowId'', JStr ''@1''),
                                        (''paneId'', JStr ''%1'')],
                                  JObj [(''name'', JStr ''a2''), (''windowId'', JStr ''@2''),
                                        (''alive'', JBool True)]])]))),
      ([''w'', ''.ccx'', ''projects'', ''current.json''],
         File (Json (JObj [(''name'', JStr ''demo'')])))]"

definition demo_tmux :: fake_tmux where
  "demo_tmux =
     \<lparr>f_sessions = [''demo''],
      f_windows = ''@0|0|main'' @ [CHR 0x0A] @ ''@1|1|a1'' @ [CHR 0x0A],
      f_pane = ''one'' @ [CHR 0x0A] @ ''  '' @ [CHR 0x0A] @ ''two'' @ [CHR 0x0A]\<rparr>"

definition demo_world :: "fake_tmux world" where
  "demo_world = world_with demo_fs demo_tmux"

text \<open>The demo world after the primary root has lost its write permission.\<close>

definition readonly_world :: "fake_tmux world" where
  "readonly_world = demo_world\<lparr>w_ok := (\<lambda>p. False)\<rparr>"

text \<open>A world in which the registry has just been constructed: the primary
  directories exist, nothing else does, and tmux has no session.\<close>

definition fresh_world :: "fake_tmux world" where
  "fresh_world =
     world_with [([], Dir), ([''w''], Dir), ([''w'', ''.ccx''], Dir),
                 ([''w'', ''.ccx'', ''projects''], Dir)] tmux0"

text \<open>A tmux server that reports its sessions and refuses to kill them, and the demo
  world over it.\<close>

definition stuck_spawn :: "string \<Rightarrow> string list \<Rightarrow> fake_tmux \<Rightarrow> spawn_result \<times> fake_tmux" where
  "stuck_spawn prog argv st =
     (if arg_at 2 argv = ''kill-session'' then (exit_with 1 [], st) else fake_spawn prog argv st)"

definition stuck_world :: "fake_tmux world" where
  "stuck_world = demo_world\<lparr>spawn := stuck_spawn\<rparr>"

section \<open>The monad of operations\<close>

lemma bnd_ret [simp]: "bnd (ret x) f = f x"
  by (simp add: bnd_def ret_def)

lemma bnd_throw [simp]: "bnd (throw e) f = throw e"
  by (simp add: bnd_def throw_def)

lemma bnd_gets [simp]: "bnd (gets g) f w = f (g w) w"
  by (simp add: bnd_def gets_def)

lemma bnd_lift_Inr [simp]: "bnd (lift (Inr x)) f = f x"
  by (simp add: bnd_def lift_def)

lemma bnd_lift_Inl [simp]: "bnd (lift (Inl e)) f = throw e"
  by (simp add: bnd_def lift_def throw_def)

lemma throw_apply [simp]: "throw e w = (Inl e, w)"
  by (simp add: throw_def)

lemma ret_apply [simp]: "ret x w = (Inr x, w)"
  by (simp add: ret_def)

lemma bnd_Inr_elim:
  assumes "bnd m f w = (Inr y, w')"
  obtains x w1 where "m w = (Inr x, w1)" "f x w1 = (Inr y, w')"
  using assms by (auto simp: bnd_def split: prod.splits sum.splits)

lemma bnd_assoc: "bnd (bnd m f) g = bnd m (\<lambda>x. bnd (f x) g)"
  by (auto simp: bnd_def fun_eq_iff split: prod.splits sum.splits)

lemmas monad_defs = bnd_def gets_def ret_def throw_def lift_def catch_def

section \<open>What the backend calls do to the world\<close>

text \<open>A backend call runs one process and changes nothing but \<open>proc\<close>.\<close>

lemma runRaw_apply:
  "runRaw tm argv w =
     (Inr \<lparr>ok = spawn_ok (fst (tmux_run tm argv w)),
           status = sp_status (fst (tmux_run tm argv w)),
           stdout = sp_stdout (fst (tmux_run tm argv w)),
           stderr = sp_stderr (fst (tmux_run tm argv w))\<rparr>,
      w\<lparr>proc := snd (tmux_run tm argv w)\<rparr>)"
  by (simp add: runRaw_def spawnSync_def bnd_def spawn_ok_def tmux_run_def split: prod.splits)

lemma exec_apply:
  "exec tm argv w =
     (if spawn_ok (fst (tmux_run tm argv w)) then Inr (sp_stdout (fst (tmux_run tm argv w)))
      else Inl BackendCommandError,
      w\<lparr>proc := snd (tmux_run tm argv w)\<rparr>)"
  by (simp add: exec_def runRaw_apply bnd_def)

lemma hasSession_apply:
  "hasSession tm n w =
     (Inr (spawn_ok (fst (tmux_run tm [JStr ''has-session'', JStr ''-t'', n] w))),
      w\<lparr>proc := snd (tmux_run tm [JStr ''has-session'', JStr ''-t'', n] w)\<rparr>)"
  by (simp add: hasSession_def runRaw_apply bnd_def)

lemma listWindows_apply:
  "listWindows tm s w =
     (Inr (if spawn_ok (fst (tmux_run tm [JStr ''list-windows'', JStr ''-t'', s, JStr ''-F'',
                     JStr ''#{window_id}|#{window_index}|#{window_name}''] w))
           then map window_of_line (trimmed_lines (sp_stdout (fst (tmux_run tm
                    [JStr ''list-windows'', JStr ''-t'', s, JStr ''-F'',
                     JStr ''#{window_id}|#{window_index}|#{window_name}''] w))))
           else []),
      w\<lparr>proc := snd (tmux_run tm [JStr ''list-windows'', JStr ''-t'', s, JStr ''-F'',
                     JStr ''#{window_id}|#{window_index}|#{window_name}''] w)\<rparr>)"
  by (simp add: listWindows_def runRaw_apply bnd_def)

lemma sendKeys_apply:
  "sendKeys tm t keys w =
     (if spawn_ok (fst (spawn w (tmuxBinary tm)
             ([''-L'', socketName tm, ''send-keys'', ''-t'', js_String t] @ map js_String keys) (proc w)))
      then Inr () else Inl BackendCommandError,
      w\<lparr>proc := snd (spawn w (tmuxBinary tm)
             ([''-L'', socketName tm, ''send-keys'', ''-t'', js_String t] @ map js_String keys) (proc w))\<rparr>)"
  by (simp add: sendKeys_def exec_apply bnd_def priv_buildArgs_def tmux_run_def comp_def)

lemma spawnSync_apply:
  "spawnSync prog argv w =
     (Inr (fst (spawn w prog argv (proc w))), w\<lparr>proc := snd (spawn w prog argv (proc w))\<rparr>)"
  by (simp add: spawnSync_def split: prod.splits)

lemma map_of_obj_set [simp]: "map_of (obj_set k v kvs) k = Some v"
  by (induction kvs) auto

lemma map_of_obj_set_other [simp]: "k' \<noteq> k \<Longrightarrow> map_of (obj_set k v kvs) k' = map_of kvs k'"
  by (induction kvs) auto

section \<open>Properties of name validation\<close>

lemma name_regex_grammar: "name_regex s = name_grammar s"
  by (cases s) (auto simp: name_grammar_def)

text \<open>Only the name check raises \<open>InvalidName\<close>: no other step of an operation does.\<close>

lemma ni_ret: "never_invalid (ret x)"
  by (simp add: never_invalid_def)

lemma ni_throw: "e \<noteq> InvalidName \<Longrightarrow> never_invalid (throw e)"
  by (simp add: never_invalid_def)

lemma ni_gets: "never_invalid (gets g)"
  by (simp add: never_invalid_def gets_def)

lemma ni_lift: "r \<noteq> Inl InvalidName \<Longrightarrow> never_invalid (lift r)"
  by (simp add: never_invalid_def lift_def)

lemma ni_bnd: "never_invalid m \<Longrightarrow> (\<And>x. never_invalid (f x)) \<Longrightarrow> never_invalid (bnd m f)"
  by (auto simp: never_invalid_def bnd_def split: prod.splits sum.splits) (metis fst_conv)

lemma ni_catch: "(\<And>e. never_invalid (h e)) \<Longrightarrow> never_invalid (catch m h)"
  by (auto simp: never_invalid_def catch_def split: prod.splits sum.splits)

lemma ni_if: "never_invalid a \<Longrightarrow> never_invalid b \<Longrightarrow> never_invalid (if c then a else b)"
  by simp

lemma ni_case_prod: "(\<And>a b. never_invalid (f a b)) \<Longrightarrow> never_invalid (case p of (a, b) \<Rightarrow> f a b)"
  by (cases p) simp

lemma ni_case_list:
  "never_invalid a \<Longrightarrow> (\<And>x xs. never_invalid (f x xs)) \<Longrightarrow>
   never_invalid (case l of [] \<Rightarrow> a | x # xs \<Rightarrow> f x xs)"
  by (cases l) simp_all

lemma ni_case_option:
  "never_invalid a \<Longrightarrow> (\<And>x. never_invalid (f x)) \<Longrightarrow>
   never_invalid (case v of None \<Rightarrow> a | Some x \<Rightarrow> f x)"
  by (cases v) simp_all

lemma ni_fs:
  "never_invalid (mkdirSync p)" "never_invalid (writeFileSync p c)" "never_invalid (renameSync a b)"
  "never_invalid (unlinkSync p)" "never_invalid (touchAppend p)" "never_invalid (spawnSync prog argv)"
  by (auto simp: never_invalid_def mkdirSync_def writeFileSync_def renameSync_def unlinkSync_def
      touchAppend_def spawnSync_def split: option.splits node.splits prod.splits)

lemmas ni_basic = ni_ret ni_throw ni_gets ni_lift ni_bnd ni_catch ni_if ni_case_prod ni_case_list
  ni_case_option ni_fs

lemma ni_writeJsonAtomic: "never_invalid (writeJsonAtomic p d)"
  unfolding writeJsonAtomic_def by (intro ni_basic)

lemma ni_registry:
  "never_invalid (ensureProject reg pn meta)" "never_invalid (saveAgents reg pn d)"
  "never_invalid (setCurrentProject reg pn)" "never_invalid (clearCurrentProject reg)"
  unfolding ensureProject_def saveAgents_def setCurrentProject_def clearCurrentProject_def
  by (intro ni_basic ni_writeJsonAtomic)+

lemma ni_runRaw: "never_invalid (runRaw tm argv)"
  unfolding runRaw_def by (intro ni_basic)

lemma ni_exec: "never_invalid (exec tm argv)"
  unfolding exec_def by (intro ni_basic ni_runRaw) simp

lemma ni_getWindowFirstPaneId: "never_invalid (getWindowFirstPaneId tm t)"
  unfolding getWindowFirstPaneId_def by (intro ni_basic ni_exec) simp

lemma ni_createWindow: "never_invalid (createWindow tm s n c cm ca)"
  unfolding createWindow_def Let_def by (intro ni_basic ni_exec)

lemma ni_tmux:
  "never_invalid (hasSession tm n)" "never_invalid (createSession tm n c)"
  "never_invalid (killSession tm n)" "never_invalid (listWindows tm n)"
  "never_invalid (killWindow tm n)" "never_invalid (setWindowOption tm n k v)"
  "never_invalid (pipePane tm n sc b)" "never_invalid (sendKeys tm n ks)"
  "never_invalid (capturePane tm n hi)" "never_invalid (selectWindow tm n)"
  "never_invalid (listClients tm)" "never_invalid (switchClient tm tty n)"
  unfolding hasSession_def createSession_def killSession_def listWindows_def killWindow_def
    setWindowOption_def pipePane_def sendKeys_def capturePane_def selectWindow_def
    listClients_def switchClient_def
  by (intro ni_basic ni_exec ni_runRaw)+

lemma ni_switch_clients: "never_invalid (switch_clients tm ttys project)"
proof (induction ttys)
  case Nil
  show ?case by (simp only: switch_clients.simps ni_ret)
next
  case (Cons tty rest)
  show ?case by (simp only: switch_clients.simps) (intro ni_basic Cons)
qed

lemma agents_of_not_invalid: "agents_of data \<noteq> Inl InvalidName"
  by (auto simp: agents_of_def js_member_def as_array_def split: sum.splits jsval.splits if_splits)

lemma resolveCommand_not_invalid: "resolveCommand t opts \<noteq> Inl InvalidName"
  by (auto simp: resolveCommand_def baseCmd_def buildDefaultCommand_def Let_def
      split: sum.splits if_splits)

lemma ni_requireCurrentProject: "never_invalid (priv_requireCurrentProject mx)"
  unfolding priv_requireCurrentProject_def by (intro ni_basic) simp

lemma ni_loadAgent: "never_invalid (priv_loadAgent mx project agentName)"
  unfolding priv_loadAgent_def by (intro ni_basic agents_of_not_invalid) simp

lemmas ni_intros = ni_basic ni_writeJsonAtomic ni_registry ni_runRaw ni_exec
  ni_getWindowFirstPaneId ni_createWindow ni_tmux ni_switch_clients agents_of_not_invalid
  resolveCommand_not_invalid ni_requireCurrentProject ni_loadAgent

lemma assertSafeName_invalid:
  "(assertSafeName kind v = Inl InvalidName) = (\<not> trimmed_name_ok v)"
  by (auto simp: assertSafeName_def trimmed_name_ok_def name_regex_grammar name_grammar_def Let_def
      split: jsval.splits)

lemma name_first:
  assumes "\<And>n. never_invalid (rest n)"
  shows "(fst (bnd (lift (assertSafeName kind v)) rest w) = Inl InvalidName) = (\<not> trimmed_name_ok v)"
proof (cases "assertSafeName kind v")
  case (Inl e)
  then have "e = InvalidName"
    by (auto simp: assertSafeName_def Let_def split: jsval.splits if_splits)
  with Inl show ?thesis using assertSafeName_invalid [of kind v] by simp
next
  case (Inr n)
  with assms [of n] show ?thesis
    using assertSafeName_invalid [of kind v] by (simp add: never_invalid_def)
qed

lemma project_first:
  assumes "\<And>p n. never_invalid (rest p n)"
  shows "(fst (bnd (priv_requireCurrentProject mx)
                 (\<lambda>p. bnd (lift (assertSafeName kind v)) (rest p)) w) = Inl InvalidName)
           = (truthy (getCurrentProject (registry mx) w) \<and> \<not> trimmed_name_ok v)"
  using name_first [of "rest (getCurrentProject (registry mx) w)" kind v w, OF assms]
  by (simp add: priv_requireCurrentProject_def bnd_assoc)

lemma no_project:
  assumes "\<not> truthy (getCurrentProject (registry mx) w)"
  shows "bnd (priv_requireCurrentProject mx) rest w = (Inl NoCurrentProject, w)"
  using assms by (simp add: priv_requireCurrentProject_def bnd_assoc)

lemma name_first_ret:
  assumes "\<And>p. never_invalid (rest p)"
  shows "(fst (bnd (bnd (lift (assertSafeName kind v)) (\<lambda>n. ret (g n))) rest w) = Inl InvalidName)
           = (\<not> trimmed_name_ok v)"
  using name_first [of "\<lambda>n. rest (g n)" kind v w] assms by (simp add: bnd_assoc)

lemma create_project_invalid:
  "(fst (create_project mx name cwd w) = Inl InvalidName) = (\<not> trimmed_name_ok name)"
  unfolding create_project_def by (rule name_first) (intro ni_intros)

lemma switch_project_invalid:
  "(fst (switch_project mx name w) = Inl InvalidName) = (\<not> trimmed_name_ok name)"
  unfolding switch_project_def by (rule name_first) (intro ni_intros; simp)

lemma close_project_invalid:
  "(fst (close_project mx name w) = Inl InvalidName) = (\<not> trimmed_name_ok name)"
  unfolding close_project_def by (rule name_first) (intro ni_intros)

lemma list_agents_invalid:
  fixes w :: "'b world"
  shows "(fst (list_agents mx project w) = Inl InvalidName) = (truthy project \<and> \<not> trimmed_name_ok project)"
proof (cases "truthy project")
  case True
  have "(fst (list_agents mx project w) = Inl InvalidName) = (\<not> trimmed_name_ok project)"
    unfolding list_agents_def if_P [OF True] by (rule name_first_ret) (intro ni_intros)
  with True show ?thesis by simp
next
  case False
  have "never_invalid (list_agents mx project :: (jsval, 'b) js)"
    unfolding list_agents_def if_not_P [OF False] by (intro ni_intros)
  then show ?thesis using False by (simp add: never_invalid_def)
qed

lemma spawn_agent_invalid:
  "(fst (spawn_agent mx type name options w) = Inl InvalidName)
     = (truthy (getCurrentProject (registry mx) w) \<and> \<not> trimmed_name_ok name)"
  unfolding spawn_agent_def Let_def by (rule project_first) (intro ni_intros; simp)

lemma send_to_agent_invalid:
  "(fst (send_to_agent mx name text w) = Inl InvalidName)
     = (truthy (getCurrentProject (registry mx) w) \<and> \<not> trimmed_name_ok name)"
  unfolding send_to_agent_def by (rule project_first) (intro ni_intros)

lemma read_agent_output_invalid:
  "(fst (read_agent_output mx name lines w) = Inl InvalidName)
     = (truthy (getCurrentProject (registry mx) w) \<and> \<not> trimmed_name_ok name)"
  unfolding read_agent_output_def by (rule project_first) (intro ni_intros)

lemma interrupt_agent_invalid:
  "(fst (interrupt_agent mx name w) = Inl InvalidName)
     = (truthy (getCurrentProject (registry mx) w) \<and> \<not> trimmed_name_ok name)"
  unfolding interrupt_agent_def by (rule project_first) (intro ni_intros)

lemma kill_agent_invalid:
  "(fst (kill_agent mx name w) = Inl InvalidName)
     = (truthy (getCurrentProject (registry mx) w) \<and> \<not> trimmed_name_ok name)"
  unfolding kill_agent_def by (rule project_first) (intro ni_intros)

lemma attach_agent_invalid:
  "(fst (attach_agent mx name w) = Inl InvalidName)
     = (truthy (getCurrentProject (registry mx) w) \<and> \<not> trimmed_name_ok name)"
  unfolding attach_agent_def by (rule project_first) (intro ni_intros)

text \<open>
  Claim C7, as the code has it. The name check \<^verbatim>\<open>assertSafeName\<close> trims the name first:
  it raises \<open>InvalidName\<close> exactly when the value is not a string or its trimmed form
  fails the grammar, and otherwise returns the trimmed name. (A name that fails the
  grammar only by white space around it is accepted, as its trimmed form.)
  \<^verbatim>\<open>create_project\<close>, \<^verbatim>\<open>switch_project\<close> and \<^verbatim>\<open>close_project\<close> check the name before
  anything else, and \<^verbatim>\<open>list_agents\<close> checks a project argument that is truthy (an empty
  string stands for no argument): these raise \<open>InvalidName\<close> exactly when the check
  fails. The operations on an agent (\<^verbatim>\<open>spawn_agent\<close>, \<^verbatim>\<open>send_to_agent\<close>,
  \<^verbatim>\<open>read_agent_output\<close>, \<^verbatim>\<open>interrupt_agent\<close>, \<^verbatim>\<open>kill_agent\<close>, \<^verbatim>\<open>attach_agent\<close>) first
  require a current project: without one they raise \<open>NoCurrentProject\<close> whatever the
  name, and with one they raise \<open>InvalidName\<close> exactly when the check fails.
\<close>

theorem invalid_name_iff_trimmed:
  fixes w :: "'b world"
  shows
  "assertSafeName kind (JStr s) =
     (if name_grammar (js_trim s) then Inr (js_trim s) else Inl InvalidName) \<and>
   ((assertSafeName kind name = Inl InvalidName) = (\<not> trimmed_name_ok name)) \<and>
   ((fst (create_project mx name cwd w) = Inl InvalidName) = (\<not> trimmed_name_ok name)) \<and>
   ((fst (switch_project mx name w) = Inl InvalidName) = (\<not> trimmed_name_ok name)) \<and>
   ((fst (close_project mx name w) = Inl InvalidName) = (\<not> trimmed_name_ok name)) \<and>
   ((fst (list_agents mx name w) = Inl InvalidName) = (truthy name \<and> \<not> trimmed_name_ok name)) \<and>
   ((fst (spawn_agent mx type name options w) = Inl InvalidName)
      = (truthy (getCurrentProject (registry mx) w) \<and> \<not> trimmed_name_ok name)) \<and>
   ((fst (send_to_agent mx name text w) = Inl InvalidName)
      = (truthy (getCurrentProject (registry mx) w) \<and> \<not> trimmed_name_ok name)) \<and>
   ((fst (read_agent_output mx name lines w) = Inl InvalidName)
      = (truthy (getCurrentProject (registry mx) w) \<and> \<not> trimmed_name_ok name)) \<and>
   ((fst (interrupt_agent mx name w) = Inl InvalidName)
      = (truthy (getCurrentProject (registry mx) w) \<and> \<not> trimmed_name_ok name)) \<and>
   ((fst (kill_agent mx name w) = Inl InvalidName)
      = (truthy (getCurrentProject (registry mx) w) \<and> \<not> trimmed_name_ok name)) \<and>
   ((fst (attach_agent mx name w) = Inl InvalidName)
      = (truthy (getCurrentProject (registry mx) w) \<and> \<not> trimmed_name_ok name)) \<and>
   (\<not> truthy (getCurrentProject (registry mx) w) \<longrightarrow>
      fst (spawn_agent mx type name options w) = Inl NoCurrentProject \<and>
      fst (send_to_agent mx name text w) = Inl NoCurrentProject \<and>
      fst (read_agent_output mx name lines w) = Inl NoCurrentProject \<and>
      fst (interrupt_agent mx name w) = Inl NoCurrentProject \<and>
      fst (kill_agent mx name w) = Inl NoCurrentProject \<and>
      fst (attach_agent mx name w) = Inl NoCurrentProject)"
proof -
  have helper: "assertSafeName kind (JStr s) =
     (if name_grammar (js_trim s) then Inr (js_trim s) else Inl InvalidName)"
    by (simp add: assertSafeName_def name_regex_grammar [symmetric])
  have none: "fst (spawn_agent mx type name options w) = Inl NoCurrentProject \<and>
      fst (send_to_agent mx name text w) = Inl NoCurrentProject \<and>
      fst (read_agent_output mx name lines w) = Inl NoCurrentProject \<and>
      fst (interrupt_agent mx name w) = Inl NoCurrentProject \<and>
      fst (kill_agent mx name w) = Inl NoCurrentProject \<and>
      fst (attach_agent mx name w) = Inl NoCurrentProject"
    if "\<not> truthy (getCurrentProject (registry mx) w)"
    unfolding spawn_agent_def send_to_agent_def read_agent_output_def interrupt_agent_def
      kill_agent_def attach_agent_def Let_def
    by (simp add: no_project [OF that])
  then have none': "\<not> truthy (getCurrentProject (registry mx) w) \<longrightarrow>
      fst (spawn_agent mx type name options w) = Inl NoCurrentProject \<and>
      fst (send_to_agent mx name text w) = Inl NoCurrentProject \<and>
      fst (read_agent_output mx name lines w) = Inl NoCurrentProject \<and>
      fst (interrupt_agent mx name w) = Inl NoCurrentProject \<and>
      fst (kill_agent mx name w) = Inl NoCurrentProject \<and>
      fst (attach_agent mx name w) = Inl NoCurrentProject"
    by blast
  show ?thesis
    by (intro conjI helper none' assertSafeName_invalid create_project_invalid
        switch_project_invalid close_project_invalid list_agents_invalid spawn_agent_invalid
        send_to_agent_invalid read_agent_output_invalid interrupt_agent_invalid
        kill_agent_invalid attach_agent_invalid)
qed

theorem invalid_name_iff_trimmed_witness:
  "assertSafeName ''agent'' (JStr '' a-1.x '') = Inr ''a-1.x'' \<and>
   assertSafeName ''agent'' (JStr ''a b'') = Inl InvalidName \<and>
   fst (create_project mx0 (JStr ''a b'') JNull fresh_world) = Inl InvalidName \<and>
   fst (kill_agent mx0 (JStr ''a b'') demo_world) = Inl InvalidName \<and>
   fst (kill_agent mx0 (JStr ''a b'') fresh_world) = Inl NoCurrentProject \<and>
   fst (list_agents mx0 (JStr []) demo_world) \<noteq> Inl InvalidName"
proof -
  have g: "name_grammar (js_trim '' a-1.x '')" "js_trim '' a-1.x '' = ''a-1.x''"
    by (simp_all add: name_grammar_def js_trim_def is_space_def is_alnum_def is_name_char_def)
  have bad: "\<not> trimmed_name_ok (JStr ''a b'')"
    by (simp add: trimmed_name_ok_def name_grammar_def js_trim_def is_space_def is_alnum_def
        is_name_char_def)
  have cur: "truthy (getCurrentProject (registry mx0) demo_world)"
    "\<not> truthy (getCurrentProject (registry mx0) fresh_world)"
    by code_simp+
  have empty: "\<not> truthy (JStr [])" by simp
  note a = invalid_name_iff_trimmed [where kind = "''agent''" and s = "'' a-1.x ''"
      and name = "JStr ''a b''" and mx = mx0 and w = fresh_world and cwd = JNull]
  note b = invalid_name_iff_trimmed [where name = "JStr ''a b''" and mx = mx0 and w = demo_world]
  note c = invalid_name_iff_trimmed [where name = "JStr []" and mx = mx0 and w = demo_world]
  from a g have 1: "assertSafeName ''agent'' (JStr '' a-1.x '') = Inr ''a-1.x''" by simp
  from a bad have 2: "assertSafeName ''agent'' (JStr ''a b'') = Inl InvalidName"
    and 3: "fst (create_project mx0 (JStr ''a b'') JNull fresh_world) = Inl InvalidName"
    by blast+
  from b bad cur have 4: "fst (kill_agent mx0 (JStr ''a b'') demo_world) = Inl InvalidName"
    by blast
  from a cur have 5: "fst (kill_agent mx0 (JStr ''a b'') fresh_world) = Inl NoCurrentProject"
    by blast
  from c empty have 6: "fst (list_agents mx0 (JStr []) demo_world) \<noteq> Inl InvalidName"
    by blast
  from 1 2 3 4 5 6 show ?thesis by blast
qed

text \<open>The claim as it is written fails: a name with a leading space fails the grammar
  and is accepted; and with no current project selected, \<^verbatim>\<open>kill_agent\<close> on a name that
  fails the grammar raises \<open>NoCurrentProject\<close>, not \<open>InvalidName\<close>.\<close>

theorem assertSafeName_untrimmed_counterexample:
  "\<not> name_grammar '' a1'' \<and> assertSafeName ''agent'' (JStr '' a1'') = Inr ''a1'' \<and>
   \<not> name_grammar ''a b'' \<and>
   fst (kill_agent mx0 (JStr ''a b'') fresh_world) = Inl NoCurrentProject"
proof -
  have "\<not> name_grammar '' a1'' \<and> assertSafeName ''agent'' (JStr '' a1'') = Inr ''a1'' \<and>
        \<not> name_grammar ''a b''"
    by (simp add: assertSafeName_def name_grammar_def js_trim_def is_space_def is_alnum_def
        is_name_char_def)
  moreover have "fst (kill_agent mx0 (JStr ''a b'') fresh_world) = Inl NoCurrentProject"
    by code_simp
  ultimately show ?thesis by blast
qed

section \<open>Properties of the start command\<close>

lemma spawn_entry_command:
  assumes "spawn_agent mx type name options w = (Inr entry, w')"
  shows "\<exists>c. resolveCommand (js_trim (js_String (js_or type (JStr []))))
               (if options = JUndefined then JObj [] else options) = Inr c \<and>
             js_get entry ''command'' = cmd_json c"
  using assms unfolding spawn_agent_def Let_def
  by (auto elim!: bnd_Inr_elim split: if_splits sum.splits simp: lift_def)

text \<open>
  Claim C1. When the options carry an \<^verbatim>\<open>args\<close> array, the resolved command is the base
  command with the strings of that array appended to the base command's own arguments.
  The base command is the override (\<^verbatim>\<open>options.command || options.cmd\<close>) with no
  arguments of its own when one is given, and the default program of the type with its
  default arguments otherwise. The entry that a successful \<^verbatim>\<open>spawn_agent\<close> returns
  records this resolved command.
\<close>

theorem spawn_args_appended:
  assumes "js_get options ''args'' = JArr xs"
  shows "resolveCommand agentType options =
           (if truthy (js_or (js_get options ''command'') (js_get options ''cmd''))
            then Inr \<lparr>cmd_command = js_String (js_or (js_get options ''command'') (js_get options ''cmd'')),
                      cmd_args = map js_String xs\<rparr>
            else (case buildDefaultCommand agentType of
                    Inl e \<Rightarrow> Inl e
                  | Inr d \<Rightarrow> Inr \<lparr>cmd_command = cmd_command d,
                                  cmd_args = cmd_args d @ map js_String xs\<rparr>)) \<and>
         (spawn_agent mx type name options w = (Inr entry, w') \<longrightarrow>
            (\<exists>c. resolveCommand (js_trim (js_String (js_or type (JStr [])))) options = Inr c \<and>
                 js_get entry ''command'' = cmd_json c))"
proof (intro conjI impI)
  show "resolveCommand agentType options =
           (if truthy (js_or (js_get options ''command'') (js_get options ''cmd''))
            then Inr \<lparr>cmd_command = js_String (js_or (js_get options ''command'') (js_get options ''cmd'')),
                      cmd_args = map js_String xs\<rparr>
            else (case buildDefaultCommand agentType of
                    Inl e \<Rightarrow> Inl e
                  | Inr d \<Rightarrow> Inr \<lparr>cmd_command = cmd_command d,
                                  cmd_args = cmd_args d @ map js_String xs\<rparr>))"
    using assms by (simp add: resolveCommand_def baseCmd_def extraArgs_def split: sum.splits)
next
  assume run: "spawn_agent mx type name options w = (Inr entry, w')"
  from assms have "options \<noteq> JUndefined" by auto
  with spawn_entry_command [OF run]
  show "\<exists>c. resolveCommand (js_trim (js_String (js_or type (JStr [])))) options = Inr c \<and>
            js_get entry ''command'' = cmd_json c"
    by simp
qed

lemma demo_spawn_run: "fst (spawn_agent mx0 (JStr ''claude'') (JStr ''a3'')
           (JObj [(''args'', JArr [JStr ''--model'', JStr ''opus''])]) demo_world) =
    Inr (JObj
       [(''name'', JStr ''a3''), (''type'', JStr ''claude''),
        (''project'', JStr ''demo''), (''windowId'', JStr ''@7''),
        (''windowIndex'', JNum 1), (''paneId'', JStr ''%7''),
        (''cwd'', JStr ''/w''),
        (''command'',
         JObj
          [(''command'', JStr ''claude''),
           (''args'',
            JArr
             [JStr ''--dangerously-skip-permissions'', JStr ''--model'',
              JStr ''opus''])]),
        (''logPath'', JStr ''/w/.ccx/projects/demo/logs/a3.log''),
        (''createdAt'', JStr ''T0'')])"
  by code_simp

theorem spawn_args_appended_witness:
  "resolveCommand ''claude'' (JObj [(''args'', JArr [JStr ''--model'', JStr ''opus''])]) =
     Inr \<lparr>cmd_command = ''claude'',
          cmd_args = [''--dangerously-skip-permissions'', ''--model'', ''opus'']\<rparr> \<and>
   resolveCommand ''claude'' (JObj [(''command'', JStr ''aider''), (''args'', JArr [JStr ''-x''])]) =
     Inr \<lparr>cmd_command = ''aider'', cmd_args = [''-x'']\<rparr> \<and>
   (\<exists>entry. fst (spawn_agent mx0 (JStr ''claude'') (JStr ''a3'')
                   (JObj [(''args'', JArr [JStr ''--model'', JStr ''opus''])]) demo_world) = Inr entry \<and>
            js_get entry ''command'' =
              cmd_json \<lparr>cmd_command = ''claude'',
                        cmd_args = [''--dangerously-skip-permissions'', ''--model'', ''opus'']\<rparr>)"
proof -
  let ?o = "JObj [(''args'', JArr [JStr ''--model'', JStr ''opus''])]"
  let ?p = "JObj [(''command'', JStr ''aider''), (''args'', JArr [JStr ''-x''])]"
  let ?run = "spawn_agent mx0 (JStr ''claude'') (JStr ''a3'') ?o demo_world"
  obtain entry where e: "fst ?run = Inr entry" using demo_spawn_run by blast
  then have r: "?run = (Inr entry, snd ?run)" by (simp add: prod_eq_iff)
  have a: "js_get ?o ''args'' = JArr [JStr ''--model'', JStr ''opus'']" by simp
  have b: "js_get ?p ''args'' = JArr [JStr ''-x'']" by simp
  have t: "js_trim (js_String (js_or (JStr ''claude'') (JStr []))) = ''claude''"
    by (simp add: js_or_def js_trim_def is_space_def)
  from spawn_args_appended [OF a, of "''claude''" mx0 "JStr ''claude''" "JStr ''a3''" demo_world entry "snd ?run"] r t
  have 1: "resolveCommand ''claude'' ?o =
     Inr \<lparr>cmd_command = ''claude'',
          cmd_args = [''--dangerously-skip-permissions'', ''--model'', ''opus'']\<rparr>"
    and 2: "js_get entry ''command'' =
              cmd_json \<lparr>cmd_command = ''claude'',
                        cmd_args = [''--dangerously-skip-permissions'', ''--model'', ''opus'']\<rparr>"
    by (auto simp: js_or_def buildDefaultCommand_def)
  from spawn_args_appended [OF b, of "''claude''", THEN conjunct1]
  have 3: "resolveCommand ''claude'' ?p = Inr \<lparr>cmd_command = ''aider'', cmd_args = [''-x'']\<rparr>"
    by (simp add: js_or_def)
  from 1 2 3 e show ?thesis by blast
qed

section \<open>Liveness in list_agents\<close>

lemma annotate_alive_flag:
  "js_get (annotate_alive ids a) ''alive'' =
     JBool (truthy (js_get a ''windowId'') \<and> js_get a ''windowId'' \<in> JStr ` set ids)"
  by (simp add: annotate_alive_def)

lemma present_truthy: "[] \<notin> set ids \<Longrightarrow> v \<in> JStr ` set ids \<Longrightarrow> truthy v"
  by auto

text \<open>
  Claim C3. When \<^verbatim>\<open>list_agents\<close> returns, its entries are the entries of the registry
  of the project, each with the field \<^verbatim>\<open>alive\<close> set from the window identifiers \<open>ids\<close>
  that the backend lists for the session of the project (none when the session does
  not exist): \<^verbatim>\<open>alive\<close> is true exactly when the recorded \<^verbatim>\<open>windowId\<close> is a non-empty
  string among \<open>ids\<close>, which, tmux never listing an empty identifier, is exactly when it
  is among \<open>ids\<close>. The flag is a function of the recorded \<^verbatim>\<open>windowId\<close> alone, so a stored
  \<^verbatim>\<open>alive\<close> field is never read, and the call leaves the stored files as they were.
\<close>

theorem list_agents_alive:
  assumes "list_agents mx project w = (Inr r, w')"
  shows "\<exists>proj agents ids.
           (if truthy project then \<exists>n. assertSafeName ''project'' project = Inr n \<and> proj = JStr n
            else proj = getCurrentProject (registry mx) w) \<and>
           agents_of (loadAgents (registry mx) proj w) = Inr agents \<and>
           ids = live_window_ids (tmux mx) proj w \<and>
           r = JObj [(''project'', proj), (''agents'', JArr (map (annotate_alive ids) agents))] \<and>
           (\<forall>a \<in> set agents.
              js_get (annotate_alive ids a) ''alive'' =
                JBool (truthy (js_get a ''windowId'') \<and> js_get a ''windowId'' \<in> JStr ` set ids)) \<and>
           ([] \<notin> set ids \<longrightarrow>
              (\<forall>a \<in> set agents.
                 js_get (annotate_alive ids a) ''alive'' = JBool (js_get a ''windowId'' \<in> JStr ` set ids))) \<and>
           (fst (hasSession (tmux mx) proj w) = Inr False \<longrightarrow> ids = []) \<and>
           nodes w' = nodes w \<and> w_ok w' = w_ok w"
proof -
  define proj where
    "proj = (if truthy project
             then (case assertSafeName ''project'' project of Inr n \<Rightarrow> JStr n | Inl e \<Rightarrow> JNull)
             else getCurrentProject (registry mx) w)"
  let ?ids = "live_window_ids (tmux mx) proj w"
  have p: "if truthy project then \<exists>n. assertSafeName ''project'' project = Inr n \<and> proj = JStr n
           else proj = getCurrentProject (registry mx) w"
    using assms
    by (auto simp: proj_def list_agents_def monad_defs split: sum.splits if_splits)
  from assms obtain agents where
    ag: "agents_of (loadAgents (registry mx) proj w) = Inr agents"
    and r: "r = JObj [(''project'', proj), (''agents'', JArr (map (annotate_alive ?ids) agents))]"
    and n: "nodes w' = nodes w" "w_ok w' = w_ok w"
    by (auto simp: proj_def list_agents_def priv_requireCurrentProject_def monad_defs
        hasSession_apply listWindows_apply live_window_ids_def
        split: sum.splits if_splits)
  have e: "fst (hasSession (tmux mx) proj w) = Inr False \<longrightarrow> ?ids = []"
    by (auto simp: live_window_ids_def split: prod.splits sum.splits bool.splits)
  have t: "[] \<notin> set ?ids \<longrightarrow>
             (\<forall>a \<in> set agents.
                js_get (annotate_alive ?ids a) ''alive'' = JBool (js_get a ''windowId'' \<in> JStr ` set ?ids))"
    using present_truthy by (auto simp: annotate_alive_flag)
  from p ag r n e t show ?thesis
    by (intro exI [of _ proj] exI [of _ agents] exI [of _ ?ids]) (auto simp: annotate_alive_flag)
qed

lemma demo_list_agents_run:
  "fst (list_agents mx0 JNull demo_world) =
     Inr (JObj [(''project'', JStr ''demo''),
                (''agents'',
                 JArr [JObj [(''name'', JStr ''a1''), (''windowId'', JStr ''@1''),
                             (''paneId'', JStr ''%1''), (''alive'', JBool True)],
                       JObj [(''name'', JStr ''a2''), (''windowId'', JStr ''@2''),
                             (''alive'', JBool False)]])])"
  by code_simp

lemma demo_live_window_ids:
  "live_window_ids (tmux mx0) (JStr ''demo'') demo_world = [''@0'', ''@1'']"
  by code_simp

text \<open>In the demo world the window \<^verbatim>\<open>@1\<close> of agent \<^verbatim>\<open>a1\<close> is listed and the window
  \<^verbatim>\<open>@2\<close> of agent \<^verbatim>\<open>a2\<close> is not; the registry stores \<^verbatim>\<open>alive: true\<close> for \<^verbatim>\<open>a2\<close>.\<close>

theorem list_agents_alive_witness:
  "fst (list_agents mx0 JNull demo_world) =
     Inr (JObj [(''project'', JStr ''demo''),
                (''agents'',
                 JArr [JObj [(''name'', JStr ''a1''), (''windowId'', JStr ''@1''),
                             (''paneId'', JStr ''%1''), (''alive'', JBool True)],
                       JObj [(''name'', JStr ''a2''), (''windowId'', JStr ''@2''),
                             (''alive'', JBool False)]])]) \<and>
   [] \<notin> set (live_window_ids (tmux mx0) (JStr ''demo'') demo_world) \<and>
   nodes (snd (list_agents mx0 JNull demo_world)) = nodes demo_world"
proof -
  let ?run = "list_agents mx0 JNull demo_world"
  obtain r where f: "fst ?run = Inr r" using demo_list_agents_run by blast
  then have run: "?run = (Inr r, snd ?run)" by (simp add: prod_eq_iff)
  from list_agents_alive [OF run] have "nodes (snd ?run) = nodes demo_world" by blast
  then show ?thesis using demo_list_agents_run demo_live_window_ids by simp
qed

section \<open>send_to_window\<close>

text \<open>
  Claim C10. \<^verbatim>\<open>send_to_window\<close> reads the current project and then runs three
  processes: tmux \<^verbatim>\<open>send-keys -l\<close> with the text, \<^verbatim>\<open>sleep\<close>, tmux \<^verbatim>\<open>send-keys Enter\<close>, both
  tmux commands addressed to the target \<^verbatim>\<open>project:window\<close>. Whatever the window string
  is, the outcome is decided by the current project and by these processes alone: the
  name grammar is not applied and the agent list is not read, and the only errors are
  \<open>NoCurrentProject\<close> and \<open>BackendCommandError\<close>.
\<close>

theorem send_to_window_unvalidated:
  "send_to_window mx (JStr s) text w =
     (let project = getCurrentProject (registry mx) w;
          target = js_String project @ '':'' @ s;
          payload = js_String (if text = JNull \<or> text = JUndefined then JStr [] else text);
          r1 = spawn w (tmuxBinary (tmux mx))
                 [''-L'', socketName (tmux mx), ''send-keys'', ''-t'', target, ''-l'', payload] (proc w);
          r2 = spawn w ''sleep'' [''0.05''] (snd r1);
          r3 = spawn w (tmuxBinary (tmux mx))
                 [''-L'', socketName (tmux mx), ''send-keys'', ''-t'', target, ''Enter''] (snd r2)
      in if \<not> truthy project then (Inl NoCurrentProject, w)
         else if \<not> spawn_ok (fst r1) then (Inl BackendCommandError, w\<lparr>proc := snd r1\<rparr>)
         else if \<not> spawn_ok (fst r3) then (Inl BackendCommandError, w\<lparr>proc := snd r3\<rparr>)
         else (Inr (JObj [(''project'', project), (''window'', JStr s), (''sent'', JBool True),
                          (''bytes'', JNum (int (byteLength payload)))]),
               w\<lparr>proc := snd r3\<rparr>)) \<and>
   (\<forall>e. fst (send_to_window mx (JStr s) text w) = Inl e \<longrightarrow>
        e = NoCurrentProject \<or> e = BackendCommandError)"
proof -
  have eq: "send_to_window mx (JStr s) text w =
     (let project = getCurrentProject (registry mx) w;
          target = js_String project @ '':'' @ s;
          payload = js_String (if text = JNull \<or> text = JUndefined then JStr [] else text);
          r1 = spawn w (tmuxBinary (tmux mx))
                 [''-L'', socketName (tmux mx), ''send-keys'', ''-t'', target, ''-l'', payload] (proc w);
          r2 = spawn w ''sleep'' [''0.05''] (snd r1);
          r3 = spawn w (tmuxBinary (tmux mx))
                 [''-L'', socketName (tmux mx), ''send-keys'', ''-t'', target, ''Enter''] (snd r2)
      in if \<not> truthy project then (Inl NoCurrentProject, w)
         else if \<not> spawn_ok (fst r1) then (Inl BackendCommandError, w\<lparr>proc := snd r1\<rparr>)
         else if \<not> spawn_ok (fst r3) then (Inl BackendCommandError, w\<lparr>proc := snd r3\<rparr>)
         else (Inr (JObj [(''project'', project), (''window'', JStr s), (''sent'', JBool True),
                          (''bytes'', JNum (int (byteLength payload)))]),
               w\<lparr>proc := snd r3\<rparr>))"
    by (simp add: send_to_window_def priv_requireCurrentProject_def sendKeys_apply spawnSync_apply
        bnd_def gets_def Let_def)
  have "e = NoCurrentProject \<or> e = BackendCommandError"
    if "fst (send_to_window mx (JStr s) text w) = Inl e" for e
    using that unfolding eq by (auto simp: Let_def split: if_splits)
  with eq show ?thesis by blast
qed

text \<open>A window string that is no valid name is sent to all the same.\<close>

theorem send_to_window_unvalidated_witness:
  "assertSafeName ''agent'' (JStr ''bad name!'') = Inl InvalidName \<and>
   fst (send_to_window mx0 (JStr ''bad name!'') (JStr ''hi'') demo_world) =
     Inr (JObj [(''project'', JStr ''demo''), (''window'', JStr ''bad name!''),
                (''sent'', JBool True), (''bytes'', JNum 2)])"
proof -
  have "assertSafeName ''agent'' (JStr ''bad name!'') = Inl InvalidName"
    by code_simp
  moreover have "fst (send_to_window mx0 (JStr ''bad name!'') (JStr ''hi'') demo_world) =
     Inr (JObj [(''project'', JStr ''demo''), (''window'', JStr ''bad name!''),
                (''sent'', JBool True), (''bytes'', JNum 2)])"
    by (subst send_to_window_unvalidated [THEN conjunct1]) code_simp
  ultimately show ?thesis by simp
qed

section \<open>read_agent_output\<close>

lemma js_slice_tail: "0 < n \<Longrightarrow> js_slice (- n) xs = drop (length xs - nat n) xs"
  by (simp add: js_slice_def nat_diff_distrib')

lemma js_slice_tail_length: "0 < n \<Longrightarrow> length (js_slice (- n) xs) \<le> nat n"
  by (simp add: js_slice_tail)

lemma js_slice_zero: "js_slice (- 0) xs = xs"
  by (simp add: js_slice_def)

text \<open>What a returning \<^verbatim>\<open>read_agent_output\<close> gives: the pane is captured with a
  history of \<open>max (10 * lines) 2000\<close>, and the output is the slice from \<open>- lines\<close> of the
  lines that are not blank, joined by line feeds. For \<open>0 < lines\<close> the slice is the
  last \<open>lines\<close> of them (\<open>js_slice_tail\<close>).\<close>

lemma read_agent_output_result:
  assumes "read_agent_output mx name lines w = (Inr r, w')"
  shows "\<exists>paneId w1 raw.
           capturePane (tmux mx) paneId (max (lines * 10) 2000) w1 = (Inr raw, w') \<and>
           js_get r ''output'' =
             JStr (join [CHR 0x0A]
                    (js_slice (- lines)
                       (filter (\<lambda>line. length (js_trim line) > 0) (split_on (CHR 0x0A) raw))))"
  using assms unfolding read_agent_output_def
  by (auto elim!: bnd_Inr_elim split: prod.splits) blast

text \<open>
  Claim C9 fails at a line count of 0 by a slip of the code: \<^verbatim>\<open>slice(-0)\<close> is
  \<^verbatim>\<open>slice(0)\<close>, the whole array. The pane of the demo world shows \<^verbatim>\<open>one\<close>, a blank line
  and \<^verbatim>\<open>two\<close>; asked for 0 lines, \<^verbatim>\<open>read_agent_output\<close> returns both lines that are
  not blank, where the claim allows none.
\<close>

theorem read_agent_output_zero_lines:
  "fst (read_agent_output mx0 (JStr ''a1'') 0 demo_world) =
     Inr (JObj [(''project'', JStr ''demo''), (''agent'', JStr ''a1''), (''lines'', JNum 0),
                (''output'', JStr (''one'' @ [CHR 0x0A] @ ''two''))])"
  by code_simp

section \<open>Paths and reads of the registry\<close>

lemma split_on_no_sep: "c \<notin> set s \<Longrightarrow> split_on c s = [s]"
  by (induction s) auto

lemma path_join_component:
  assumes "CHR ''/'' \<notin> set c" "c \<noteq> []" "c \<noteq> ''.''" "c \<noteq> ''..''"
  shows "path_join p c = p @ [c]"
  using assms by (simp add: path_join_def split_on_no_sep path_step_def)

lemma path_join_consts [simp]:
  "path_join p CCX_DIR = p @ [''.ccx'']"
  "path_join p PROJECTS_DIR = p @ [''projects'']"
  "path_join p PROJECT_META_FILE = p @ [''project.json'']"
  "path_join p AGENTS_FILE = p @ [''agents.json'']"
  "path_join p CURRENT_PROJECT_FILE = p @ [''current.json'']"
  "path_join p LOGS_DIR = p @ [''logs'']"
  by (simp_all add: path_join_component CCX_DIR_def PROJECTS_DIR_def PROJECT_META_FILE_def
      AGENTS_FILE_def CURRENT_PROJECT_FILE_def LOGS_DIR_def)

lemma AgentRegistry_constructed:
  assumes "AgentRegistry root w = (Inr reg, w')"
  shows "constructed reg"
  using assms
  by (auto simp: AgentRegistry_def constructed_def monad_defs split: prod.splits sum.splits)

lemma canWrite_iff: "canWrite d w = (nodes w d \<noteq> None \<and> w_ok w d)"
  by (simp add: canWrite_def accessSync_def)

lemma getCurrentPath_eq:
  "getCurrentPath reg w = priv_getProjectsDir reg w @ [''current.json'']"
  by (simp add: getCurrentPath_def)

lemma ccx_not_pointer:
  assumes "constructed reg"
  shows "ccxDir reg \<noteq> getCurrentPath reg w"
  using assms by (auto simp: constructed_def getCurrentPath_eq)

lemma killSession_apply:
  "killSession tm n w =
     (if spawn_ok (fst (tmux_run tm [JStr ''kill-session'', JStr ''-t'', n] w))
      then Inr (JObj [(''killed'', JBool True)]) else Inl BackendCommandError,
      w\<lparr>proc := snd (tmux_run tm [JStr ''kill-session'', JStr ''-t'', n] w)\<rparr>)"
  by (simp add: killSession_def exec_apply bnd_def)

lemma fs_reads_proc [simp]:
  "is_file (w\<lparr>proc := b\<rparr>) p = is_file w p"
  "existsSync p (w\<lparr>proc := b\<rparr>) = existsSync p w"
  "canWrite p (w\<lparr>proc := b\<rparr>) = canWrite p w"
  "readJson p d (w\<lparr>proc := b\<rparr>) = readJson p d w"
  "priv_getProjectsDir reg (w\<lparr>proc := b\<rparr>) = priv_getProjectsDir reg w"
  by (simp_all add: is_file_def existsSync_def canWrite_iff readJson_def priv_getProjectsDir_def)

lemma registry_reads_proc [simp]:
  "getProjectDir reg n (w\<lparr>proc := b\<rparr>) = getProjectDir reg n w"
  "getProjectMetaPath reg n (w\<lparr>proc := b\<rparr>) = getProjectMetaPath reg n w"
  "getAgentsPath reg n (w\<lparr>proc := b\<rparr>) = getAgentsPath reg n w"
  "getLogsDir reg n (w\<lparr>proc := b\<rparr>) = getLogsDir reg n w"
  "getAgentLogPath reg n a (w\<lparr>proc := b\<rparr>) = getAgentLogPath reg n a w"
  "getCurrentPath reg (w\<lparr>proc := b\<rparr>) = getCurrentPath reg w"
  "loadProjectMeta reg n (w\<lparr>proc := b\<rparr>) = loadProjectMeta reg n w"
  "loadAgents reg n (w\<lparr>proc := b\<rparr>) = loadAgents reg n w"
  "getCurrentProject reg (w\<lparr>proc := b\<rparr>) = getCurrentProject reg w"
  by (simp_all add: getProjectDir_def getProjectMetaPath_def getAgentsPath_def getLogsDir_def
      getAgentLogPath_def getCurrentPath_def loadProjectMeta_def loadAgents_def
      getCurrentProject_def)

lemma current_is_file:
  assumes "getCurrentProject reg w = JStr p"
  shows "is_file w (getCurrentPath reg w)"
  using assms
  by (auto simp: getCurrentProject_def readJson_def existsSync_def is_file_def js_or_def
      split: if_splits option.splits node.splits content.splits)

lemma clearCurrentProject_apply:
  "clearCurrentProject reg w =
     (Inr (), if is_file w (getCurrentPath reg w)
              then w\<lparr>nodes := (nodes w)(getCurrentPath reg w := None)\<rparr> else w)"
  by (simp add: clearCurrentProject_def unlinkSync_def monad_defs)

section \<open>close_project\<close>

lemma close_project_apply:
  assumes "assertSafeName ''project'' name = Inr project"
  shows "close_project mx name w =
     (let current = getCurrentProject (registry mx) w;
          h = tmux_run (tmux mx) [JStr ''has-session'', JStr ''-t'', JStr project] w;
          w1 = w\<lparr>proc := snd h\<rparr>;
          k = tmux_run (tmux mx) [JStr ''kill-session'', JStr ''-t'', JStr project] w1;
          w2 = (if spawn_ok (fst h) then w1\<lparr>proc := snd k\<rparr> else w1)
      in if spawn_ok (fst h) \<and> \<not> spawn_ok (fst k) then (Inl BackendCommandError, w2)
         else (Inr (JObj [(''project'', JStr project),
                          (''killed'', JBool (spawn_ok (fst h))),
                          (''clearedCurrent'', JBool (current = JStr project))]),
               if current = JStr project
               then w2\<lparr>nodes := (nodes w)(getCurrentPath (registry mx) w := None)\<rparr>
               else w2))"
  using assms current_is_file [of "registry mx" w project]
  by (auto simp: close_project_def Let_def hasSession_apply killSession_apply
      clearCurrentProject_apply monad_defs)


lemma getCurrentProject_cleared:
  assumes "constructed reg"
  shows "getCurrentProject reg (w\<lparr>nodes := (nodes w)(getCurrentPath reg w := None)\<rparr>) = JNull"
proof -
  let ?w = "w\<lparr>nodes := (nodes w)(getCurrentPath reg w := None)\<rparr>"
  from ccx_not_pointer [OF assms, of w]
  have "canWrite (ccxDir reg) ?w = canWrite (ccxDir reg) w"
    by (simp add: canWrite_iff)
  then have "getCurrentPath reg ?w = getCurrentPath reg w"
    by (simp add: getCurrentPath_def priv_getProjectsDir_def)
  then show ?thesis
    by (simp add: getCurrentProject_def readJson_def existsSync_def js_or_def)
qed

text \<open>
  Claim C8, as the code has it. For a valid name, \<^verbatim>\<open>close_project\<close> asks the backend
  whether the session exists and kills it when it does; the kill is guarded by that
  question and its failure is not swallowed. When the kill fails the operation raises
  the backend's error, and then the pointer and the stored files are as they were. When
  the operation returns, the current-project pointer is cleared if it named the closed
  project and is left as it was otherwise, and every other stored path (project
  metadata, agent list, logs) is what it was before.
\<close>

theorem close_project_frame:
  assumes "constructed (registry mx)" and "assertSafeName ''project'' name = Inr project"
  shows "close_project mx name w =
     (let current = getCurrentProject (registry mx) w;
          h = tmux_run (tmux mx) [JStr ''has-session'', JStr ''-t'', JStr project] w;
          w1 = w\<lparr>proc := snd h\<rparr>;
          k = tmux_run (tmux mx) [JStr ''kill-session'', JStr ''-t'', JStr project] w1;
          w2 = (if spawn_ok (fst h) then w1\<lparr>proc := snd k\<rparr> else w1)
      in if spawn_ok (fst h) \<and> \<not> spawn_ok (fst k) then (Inl BackendCommandError, w2)
         else (Inr (JObj [(''project'', JStr project),
                          (''killed'', JBool (spawn_ok (fst h))),
                          (''clearedCurrent'', JBool (current = JStr project))]),
               if current = JStr project
               then w2\<lparr>nodes := (nodes w)(getCurrentPath (registry mx) w := None)\<rparr>
               else w2)) \<and>
   (\<forall>r w'. close_project mx name w = (Inr r, w') \<longrightarrow>
      getCurrentProject (registry mx) w' =
        (if getCurrentProject (registry mx) w = JStr project then JNull
         else getCurrentProject (registry mx) w) \<and>
      (getCurrentProject (registry mx) w \<noteq> JStr project \<longrightarrow> nodes w' = nodes w) \<and>
      (\<forall>q. q \<noteq> getCurrentPath (registry mx) w \<longrightarrow> nodes w' q = nodes w q)) \<and>
   (\<forall>e w'. close_project mx name w = (Inl e, w') \<longrightarrow>
      e = BackendCommandError \<and> nodes w' = nodes w \<and>
      getCurrentProject (registry mx) w' = getCurrentProject (registry mx) w)"
proof -
  note eq = close_project_apply [OF assms(2), of mx w]
  have cleared: "getCurrentProject (registry mx)
      (w\<lparr>proc := b, nodes := (nodes w)(getCurrentPath (registry mx) w := None)\<rparr>) = JNull" for b
    using getCurrentProject_cleared [OF assms(1), of "w\<lparr>proc := b\<rparr>"] by simp
  have ret: "getCurrentProject (registry mx) w' =
        (if getCurrentProject (registry mx) w = JStr project then JNull
         else getCurrentProject (registry mx) w) \<and>
      (getCurrentProject (registry mx) w \<noteq> JStr project \<longrightarrow> nodes w' = nodes w) \<and>
      (\<forall>q. q \<noteq> getCurrentPath (registry mx) w \<longrightarrow> nodes w' q = nodes w q)"
    if "close_project mx name w = (Inr r, w')" for r w'
    using that unfolding eq by (auto simp: Let_def cleared split: if_splits)
  have err: "e = BackendCommandError \<and> nodes w' = nodes w \<and>
      getCurrentProject (registry mx) w' = getCurrentProject (registry mx) w"
    if "close_project mx name w = (Inl e, w')" for e w'
    using that unfolding eq by (auto simp: Let_def split: if_splits)
  from eq ret err show ?thesis by blast
qed

lemma demo_constructed: "constructed (registry mx0)"
  by (simp add: constructed_def mx0_def reg0_def)

lemma demo_current: "getCurrentProject (registry mx0) demo_world = JStr ''demo''"
  by code_simp

lemma demo_close_run:
  "fst (close_project mx0 (JStr ''demo'') demo_world) =
     Inr (JObj [(''project'', JStr ''demo''), (''killed'', JBool True),
                (''clearedCurrent'', JBool True)])"
  by code_simp

theorem close_project_frame_witness:
  "fst (close_project mx0 (JStr ''demo'') demo_world) =
     Inr (JObj [(''project'', JStr ''demo''), (''killed'', JBool True),
                (''clearedCurrent'', JBool True)]) \<and>
   getCurrentProject (registry mx0) demo_world = JStr ''demo'' \<and>
   getCurrentProject (registry mx0) (snd (close_project mx0 (JStr ''demo'') demo_world)) = JNull \<and>
   nodes (snd (close_project mx0 (JStr ''demo'') demo_world))
     [''w'', ''.ccx'', ''projects'', ''demo'', ''agents.json''] =
   nodes demo_world [''w'', ''.ccx'', ''projects'', ''demo'', ''agents.json'']"
proof -
  let ?run = "close_project mx0 (JStr ''demo'') demo_world"
  have n: "assertSafeName ''project'' (JStr ''demo'') = Inr ''demo''" by code_simp
  have p: "getCurrentPath (registry mx0) demo_world = [''w'', ''.ccx'', ''projects'', ''current.json'']"
    by code_simp
  obtain r where f: "fst ?run = Inr r" using demo_close_run by blast
  then have run: "?run = (Inr r, snd ?run)" by (simp add: prod_eq_iff)
  from close_project_frame [OF demo_constructed n, of demo_world] run
  have "getCurrentProject (registry mx0) (snd ?run) =
          (if getCurrentProject (registry mx0) demo_world = JStr ''demo'' then JNull
           else getCurrentProject (registry mx0) demo_world)"
    and "\<forall>q. q \<noteq> getCurrentPath (registry mx0) demo_world \<longrightarrow> nodes (snd ?run) q = nodes demo_world q"
    by blast+
  then show ?thesis using demo_close_run demo_current p by simp
qed

text \<open>
  The claim as it is written, a best-effort kill with the pointer cleared whenever it
  named the closed project, fails when tmux reports the session and then refuses to
  kill it: \<^verbatim>\<open>close_project\<close> raises and the pointer still names the project.
\<close>

theorem close_project_kill_fails_counterexample:
  "getCurrentProject (registry mx0) stuck_world = JStr ''demo'' \<and>
   fst (close_project mx0 (JStr ''demo'') stuck_world) = Inl BackendCommandError \<and>
   getCurrentProject (registry mx0) (snd (close_project mx0 (JStr ''demo'') stuck_world))
     = JStr ''demo''"
  by code_simp

section \<open>Writing JSON files\<close>

lemma fold_dirs_apply:
  "fold (\<lambda>q m. m(q \<mapsto> Dir)) qs m = (\<lambda>q. if q \<in> set qs then Some Dir else m q)"
  by (induction qs arbitrary: m) (auto simp: fun_eq_iff)

lemma mkdirSync_apply:
  "mkdirSync p w =
     (if list_ex (is_file w) (prefixes p) then (Inl IoError, w)
      else (Inr (), w\<lparr>nodes := (\<lambda>q. if prefix q p then Some Dir else nodes w q)\<rparr>))"
  by (simp add: mkdirSync_def fold_dirs_apply)

lemma tmp_of_snoc [simp]: "tmp_of (p @ [c]) = p @ [c @ ''.tmp'']"
  by (simp add: tmp_of_def)

lemma path_dirname_snoc [simp]: "path_dirname (p @ [c]) = p"
  by (simp add: path_dirname_def)

lemma tmp_of_neq [simp]: "tmp_of p \<noteq> p" "p \<noteq> tmp_of p"
  by (cases p rule: rev_cases; simp add: tmp_of_def)+

lemma tmp_of_dirname [simp]: "p \<noteq> [] \<Longrightarrow> path_dirname (tmp_of p) = path_dirname p"
  by (cases p rule: rev_cases) simp_all

lemma tmp_not_prefix [simp]: "p \<noteq> [] \<Longrightarrow> \<not> prefix (tmp_of p) (path_dirname p)"
  by (cases p rule: rev_cases) (auto dest!: prefix_length_le)

lemma self_not_prefix [simp]: "p \<noteq> [] \<Longrightarrow> \<not> prefix p (path_dirname p)"
  by (cases p rule: rev_cases) (auto dest!: prefix_length_le)

lemma dirname_neq_tmp [simp]: "p \<noteq> [] \<Longrightarrow> path_dirname p \<noteq> tmp_of p"
  by (cases p rule: rev_cases) auto

lemma writeJsonAtomic_apply:
  assumes "json_slot_free p w" "p \<noteq> []"
  shows "writeJsonAtomic p d w =
     (Inr (), w\<lparr>nodes := (\<lambda>q. if q = p then Some (File (Json (json_norm d)))
                              else if q = tmp_of p then None
                              else if prefix q (path_dirname p) then Some Dir
                              else nodes w q)\<rparr>)"
  using assms
  by (auto simp: writeJsonAtomic_def json_slot_free_def mkdirSync_apply writeFileSync_def
      renameSync_def monad_defs fun_eq_iff)


lemma json_slot_free_proc [simp]: "json_slot_free p (w\<lparr>proc := b\<rparr>) = json_slot_free p w"
  by (simp add: json_slot_free_def list_ex_iff)

lemma getAgentsPath_eq:
  "getAgentsPath reg n w = getProjectDir reg n w @ [''agents.json'']"
  by (simp add: getAgentsPath_def)

lemma saveAgents_apply:
  assumes "json_slot_free (getAgentsPath reg n w) w"
  shows "saveAgents reg n data w =
     (Inr (), w\<lparr>nodes := (\<lambda>q.
        if q = getAgentsPath reg n w
        then Some (File (Json (json_norm
               (JObj (obj_set ''updatedAt'' (JStr (now w))
                       (obj_set ''project'' (JStr (js_String n)) (js_spread data)))))))
        else if q = tmp_of (getAgentsPath reg n w) then None
        else if prefix q (path_dirname (getAgentsPath reg n w)) then Some Dir
        else nodes w q)\<rparr>)"
proof -
  have "getAgentsPath reg n w \<noteq> []" by (simp add: getAgentsPath_eq)
  with assms show ?thesis by (simp add: saveAgents_def writeJsonAtomic_apply)
qed

section \<open>kill_agent\<close>

lemma map_of_json_norm_fields:
  assumes "map_of kvs k = Some v" "v \<noteq> JUndefined"
  shows "map_of (map (\<lambda>(k, v). (k, json_norm v)) (filter (\<lambda>(k, v). v \<noteq> JUndefined) kvs)) k =
           Some (json_norm v)"
  using assms by (induction kvs) (auto split: if_splits)

lemma agents_of_stored:
  "agents_of (json_norm (JObj (obj_set ''updatedAt'' t
                                (obj_set ''project'' p (obj_set ''agents'' (JArr xs) kvs))))) =
     Inr (map json_norm xs)"
proof -
  have "map_of (obj_set ''updatedAt'' t (obj_set ''project'' p (obj_set ''agents'' (JArr xs) kvs)))
          ''agents'' = Some (JArr xs)"
    by simp
  from map_of_json_norm_fields [OF this]
  show ?thesis
    by (simp add: agents_of_def js_member_def js_or_def as_array_def)
qed

lemma killWindow_apply:
  "killWindow tm t w =
     (if spawn_ok (fst (tmux_run tm [JStr ''kill-window'', JStr ''-t'', t] w))
      then Inr (JObj [(''killed'', JBool True)]) else Inl BackendCommandError,
      w\<lparr>proc := snd (tmux_run tm [JStr ''kill-window'', JStr ''-t'', t] w)\<rparr>)"
  by (simp add: killWindow_def exec_apply bnd_def)

lemma priv_loadAgent_apply:
  "priv_loadAgent mx project agentName w =
     (case agents_of (loadAgents (registry mx) project w) of
        Inl e \<Rightarrow> (Inl e, w)
      | Inr agents \<Rightarrow>
          (case find (\<lambda>a. js_get a ''name'' = JStr agentName) agents of
             None \<Rightarrow> (Inl AgentNotFound, w)
           | Some agent \<Rightarrow> (Inr (loadAgents (registry mx) project w, agent), w)))"
  by (simp add: priv_loadAgent_def monad_defs split: sum.splits option.splits)

text \<open>
  Claim C5. Let an agent be registered under the given name in the current project,
  and let the place of the agent list be free for writing. Then, whatever the backend
  does with the \<^verbatim>\<open>kill-window\<close> command (it may fail: its error is caught),
  \<^verbatim>\<open>kill_agent\<close> returns its success record, and the agent list stored afterwards
  is the old list without the entries of that name. The one backend command the call
  runs is that \<^verbatim>\<open>kill-window\<close>.
\<close>

theorem kill_agent_unconditional:
  assumes cur: "getCurrentProject (registry mx) w = project" "truthy project"
      and nm: "assertSafeName ''agent'' name = Inr agentName"
      and ags: "agents_of (loadAgents (registry mx) project w) = Inr agents"
      and found: "find (\<lambda>a. js_get a ''name'' = JStr agentName) agents = Some agent"
      and slot: "json_slot_free (getAgentsPath (registry mx) project w) w"
  shows "\<exists>w' stored.
     kill_agent mx name w =
       (Inr (JObj [(''project'', project), (''agent'', JStr agentName), (''killed'', JBool True)]), w') \<and>
     nodes w' (getAgentsPath (registry mx) project w) = Some (File (Json stored)) \<and>
     agents_of stored = Inr (map json_norm (filter (\<lambda>a. js_get a ''name'' \<noteq> JStr agentName) agents)) \<and>
     proc w' =
       snd (tmux_run (tmux mx)
              [JStr ''kill-window'', JStr ''-t'',
               js_or (js_get agent ''windowId'')
                 (JStr (js_String project @ '':'' @ js_String (js_get agent ''windowIndex'')))] w)"
proof -
  let ?t = "js_or (js_get agent ''windowId'')
              (JStr (js_String project @ '':'' @ js_String (js_get agent ''windowIndex'')))"
  let ?b = "snd (tmux_run (tmux mx) [JStr ''kill-window'', JStr ''-t'', ?t] w)"
  let ?next = "filter (\<lambda>a. js_get a ''name'' \<noteq> JStr agentName) agents"
  let ?data = "JObj (obj_set ''agents'' (JArr ?next) (js_spread (loadAgents (registry mx) project w)))"
  let ?stored = "json_norm (JObj (obj_set ''updatedAt'' (JStr (now w))
                   (obj_set ''project'' (JStr (js_String project)) (js_spread ?data))))"
  have kill: "catch (bnd (killWindow (tmux mx) ?t) (\<lambda>r. ret ())) (\<lambda>e. ret ()) w
                = (Inr (), w\<lparr>proc := ?b\<rparr>)"
    by (simp add: killWindow_apply monad_defs)
  let ?w' = "w\<lparr>proc := ?b, nodes := (\<lambda>q.
        if q = getAgentsPath (registry mx) project w then Some (File (Json ?stored))
        else if q = tmp_of (getAgentsPath (registry mx) project w) then None
        else if prefix q (path_dirname (getAgentsPath (registry mx) project w)) then Some Dir
        else nodes w q)\<rparr>"
  have save: "saveAgents (registry mx) project ?data (w\<lparr>proc := ?b\<rparr>) = (Inr (), ?w')"
    using slot by (simp add: saveAgents_apply cong: if_cong)
  have run: "kill_agent mx name w =
       (Inr (JObj [(''project'', project), (''agent'', JStr agentName), (''killed'', JBool True)]), ?w')"
    unfolding kill_agent_def
    using cur nm ags found kill save
    by (simp add: priv_requireCurrentProject_def priv_loadAgent_apply bnd_def gets_def lift_def)
  have st: "agents_of ?stored = Inr (map json_norm ?next)"
    by (simp only: js_spread.simps agents_of_stored)
  have nd: "nodes ?w' (getAgentsPath (registry mx) project w) = Some (File (Json ?stored))"
    by simp
  have pr: "proc ?w' = ?b" by simp
  from run st nd pr show ?thesis by blast
qed

lemma demo_kill_run:
  "fst (kill_agent mx0 (JStr ''a1'') demo_world) =
     Inr (JObj [(''project'', JStr ''demo''), (''agent'', JStr ''a1''), (''killed'', JBool True)]) \<and>
   \<not> spawn_ok (fst (tmux_run (tmux mx0) [JStr ''kill-window'', JStr ''-t'', JStr ''@1''] demo_world)) \<and>
   agents_of (loadAgents (registry mx0) (JStr ''demo'') (snd (kill_agent mx0 (JStr ''a1'') demo_world))) =
     Inr [JObj [(''name'', JStr ''a2''), (''windowId'', JStr ''@2''), (''alive'', JBool True)]]"
  by code_simp

lemma demo_agents:
  "agents_of (loadAgents (registry mx0) (JStr ''demo'') demo_world) =
     Inr [JObj [(''name'', JStr ''a1''), (''windowId'', JStr ''@1''), (''paneId'', JStr ''%1'')],
          JObj [(''name'', JStr ''a2''), (''windowId'', JStr ''@2''), (''alive'', JBool True)]]"
  by code_simp

lemma demo_slot_free:
  "json_slot_free (getAgentsPath (registry mx0) (JStr ''demo'') demo_world) demo_world"
  by code_simp

text \<open>In the demo world the backend refuses \<^verbatim>\<open>kill-window\<close>; agent \<^verbatim>\<open>a1\<close> is removed
  all the same.\<close>

theorem kill_agent_unconditional_witness:
  "\<not> spawn_ok (fst (tmux_run (tmux mx0) [JStr ''kill-window'', JStr ''-t'', JStr ''@1''] demo_world)) \<and>
   fst (kill_agent mx0 (JStr ''a1'') demo_world) =
     Inr (JObj [(''project'', JStr ''demo''), (''agent'', JStr ''a1''), (''killed'', JBool True)]) \<and>
   agents_of (loadAgents (registry mx0) (JStr ''demo'') (snd (kill_agent mx0 (JStr ''a1'') demo_world))) =
     Inr [JObj [(''name'', JStr ''a2''), (''windowId'', JStr ''@2''), (''alive'', JBool True)]]"
proof -
  have nm: "assertSafeName ''agent'' (JStr ''a1'') = Inr ''a1''" by code_simp
  have tr: "truthy (JStr ''demo'')" by simp
  have found: "find (\<lambda>a. js_get a ''name'' = JStr ''a1'')
       [JObj [(''name'', JStr ''a1''), (''windowId'', JStr ''@1''), (''paneId'', JStr ''%1'')],
        JObj [(''name'', JStr ''a2''), (''windowId'', JStr ''@2''), (''alive'', JBool True)]] =
     Some (JObj [(''name'', JStr ''a1''), (''windowId'', JStr ''@1''), (''paneId'', JStr ''%1'')])"
    by simp
  from kill_agent_unconditional [OF demo_current tr nm demo_agents found demo_slot_free]
  have "fst (kill_agent mx0 (JStr ''a1'') demo_world) =
     Inr (JObj [(''project'', JStr ''demo''), (''agent'', JStr ''a1''), (''killed'', JBool True)])"
    by auto
  with demo_kill_run show ?thesis by simp
qed

section \<open>Duplicate spawn\<close>

lemma mkdirSync_noop:
  assumes "list_all (\<lambda>q. nodes w q = Some Dir) (prefixes p)"
  shows "mkdirSync p w = (Inr (), w)"
proof -
  from assms have d: "\<And>q. prefix q p \<Longrightarrow> nodes w q = Some Dir"
    by (simp add: list_all_iff)
  then have "\<not> list_ex (is_file w) (prefixes p)"
    by (auto simp: list_ex_iff is_file_def)
  moreover have "(\<lambda>q. if prefix q p then Some Dir else nodes w q) = nodes w"
    using d by (auto simp: fun_eq_iff)
  ultimately show ?thesis by (simp add: mkdirSync_apply)
qed

lemma getLogsDir_eq: "getLogsDir reg n w = getProjectDir reg n w @ [''logs'']"
  by (simp add: getLogsDir_def)

lemma registered_exists:
  assumes "agents_of (loadAgents reg n w) = Inr agents"
      and "list_ex P agents"
  shows "existsSync (getAgentsPath reg n w) w"
  using assms
  by (auto simp: loadAgents_def readJson_def agents_of_def js_member_def js_or_def as_array_def
      split: if_splits)

lemma ensureProject_ready:
  assumes "project_ready reg n w" "existsSync (getAgentsPath reg n w) w"
  shows "ensureProject reg n [] w = (Inr (), w)"
proof -
  from assms(1) have logs: "list_all (\<lambda>q. nodes w q = Some Dir) (prefixes (getLogsDir reg n w))"
    and meta: "existsSync (getProjectMetaPath reg n w) w"
    by (simp_all add: project_ready_def)
  from logs have dir: "list_all (\<lambda>q. nodes w q = Some Dir) (prefixes (getProjectDir reg n w))"
    by (simp add: getLogsDir_eq list_all_iff)
  show ?thesis
    using meta assms(2)
    by (simp add: ensureProject_def mkdirSync_noop [OF dir] mkdirSync_noop [OF logs] bnd_def gets_def)
qed

text \<open>
  Claim C4. Let the checks that \<^verbatim>\<open>spawn_agent\<close> makes before it reads the registry
  pass (a current project, a valid name, an allowed type, a live session), and let the
  project's directories and metadata be in place. If the agent list of the project
  already has an entry of that name, \<^verbatim>\<open>spawn_agent\<close> fails with
  \<open>AgentAlreadyExists\<close>, and the world it leaves is the one it found but for the one
  backend query \<^verbatim>\<open>has-session\<close>: no stored file has changed, and no other backend
  command (no \<^verbatim>\<open>new-window\<close>) has run.
\<close>

theorem spawn_duplicate_atomic:
  assumes cur: "getCurrentProject (registry mx) w = project" "truthy project"
      and nm: "assertSafeName ''agent'' name = Inr agentName"
      and ty: "js_trim (js_String (js_or type (JStr []))) \<in> set ALLOWED_AGENT_TYPES"
      and sess: "spawn_ok (fst (tmux_run (tmux mx) [JStr ''has-session'', JStr ''-t'', project] w))"
      and ready: "project_ready (registry mx) project w"
      and ags: "agents_of (loadAgents (registry mx) project w) = Inr agents"
      and dup: "list_ex (\<lambda>a. js_get a ''name'' = JStr agentName) agents"
  shows "spawn_agent mx type name options w =
           (Inl AgentAlreadyExists,
            w\<lparr>proc := snd (tmux_run (tmux mx) [JStr ''has-session'', JStr ''-t'', project] w)\<rparr>)"
proof -
  let ?w1 = "w\<lparr>proc := snd (tmux_run (tmux mx) [JStr ''has-session'', JStr ''-t'', project] w)\<rparr>"
  have ex: "existsSync (getAgentsPath (registry mx) project w) w"
    using ags dup by (rule registered_exists)
  have r1: "project_ready (registry mx) project ?w1"
    using ready by (simp add: project_ready_def)
  have ens: "ensureProject (registry mx) project [] ?w1 = (Inr (), ?w1)"
    using r1 ex by (intro ensureProject_ready) simp_all
  show ?thesis
    unfolding spawn_agent_def Let_def
    using cur nm ty sess ens ags dup
    by (simp add: priv_requireCurrentProject_def hasSession_apply bnd_def gets_def lift_def)
qed

lemma demo_ready: "project_ready (registry mx0) (JStr ''demo'') demo_world"
  by code_simp

lemma demo_session:
  "spawn_ok (fst (tmux_run (tmux mx0) [JStr ''has-session'', JStr ''-t'', JStr ''demo''] demo_world))"
  by code_simp

theorem spawn_duplicate_atomic_witness:
  "fst (spawn_agent mx0 (JStr ''claude'') (JStr ''a1'') JUndefined demo_world) = Inl AgentAlreadyExists \<and>
   nodes (snd (spawn_agent mx0 (JStr ''claude'') (JStr ''a1'') JUndefined demo_world)) = nodes demo_world"
proof -
  have nm: "assertSafeName ''agent'' (JStr ''a1'') = Inr ''a1''" by code_simp
  have tr: "truthy (JStr ''demo'')" by simp
  have ty: "js_trim (js_String (js_or (JStr ''claude'') (JStr []))) \<in> set ALLOWED_AGENT_TYPES"
    by (simp add: js_or_def js_trim_def is_space_def ALLOWED_AGENT_TYPES_def)
  have dup: "list_ex (\<lambda>a. js_get a ''name'' = JStr ''a1'')
       [JObj [(''name'', JStr ''a1''), (''windowId'', JStr ''@1''), (''paneId'', JStr ''%1'')],
        JObj [(''name'', JStr ''a2''), (''windowId'', JStr ''@2''), (''alive'', JBool True)]]"
    by simp
  from spawn_duplicate_atomic [OF demo_current tr nm ty demo_session demo_ready demo_agents dup,
      of JUndefined]
  show ?thesis by simp
qed

section \<open>The choice of the storage root\<close>

lemma name_char_not_sep: "is_name_char c \<Longrightarrow> c \<noteq> CHR ''/''"
  by (auto simp: is_name_char_def is_alnum_def)

lemma name_grammar_component:
  assumes "name_grammar n"
  shows "CHR ''/'' \<notin> set n" "n \<noteq> []" "n \<noteq> ''.''" "n \<noteq> ''..''"
proof -
  from assms obtain c cs where n: "n = c # cs" and c: "is_alnum c" and cs: "list_all is_name_char cs"
    by (cases n) (auto simp: name_grammar_def)
  from c have "is_name_char c" by (simp add: is_name_char_def)
  with cs n show "CHR ''/'' \<notin> set n"
    by (auto simp: list_all_iff dest: name_char_not_sep)
  show "n \<noteq> []" using n by simp
  from c n show "n \<noteq> ''.''" "n \<noteq> ''..''" by (auto simp: is_alnum_def)
qed

lemma path_join_name: "name_grammar n \<Longrightarrow> path_join p n = p @ [n]"
  by (simp add: path_join_component name_grammar_component)

lemma writeJsonAtomic_frame:
  assumes "writeJsonAtomic p d w = (r, w')" "nodes w' q \<noteq> nodes w q"
  shows "q = p \<or> q = tmp_of p \<or> prefix q (path_dirname p)"
  using assms
  by (auto simp: writeJsonAtomic_def mkdirSync_apply writeFileSync_def renameSync_def monad_defs
      split: if_splits option.splits node.splits)

lemma tmp_of_snoc2 [simp]: "tmp_of (r @ [a, b]) = r @ [a, b @ ''.tmp'']"
  using tmp_of_snoc [of "r @ [a]" b] by simp

lemma path_dirname_snoc2 [simp]: "path_dirname (r @ [a, b]) = r @ [a]"
  using path_dirname_snoc [of "r @ [a]" b] by simp

text \<open>
  Claim C2, as the code has it. The root is chosen at every computation of a registry
  path (\<^verbatim>\<open>_getProjectsDir\<close>), by the test \<^verbatim>\<open>canWrite\<close> of the primary root at that
  moment: the primary projects directory when \<^verbatim>\<open>.ccx\<close> exists and may be written, the
  fallback otherwise. The pointer file and, for a valid project name, the project's
  directory and files lie under the root so chosen; the registry's writes
  (\<^verbatim>\<open>setCurrentProject\<close>, \<^verbatim>\<open>clearCurrentProject\<close>, \<^verbatim>\<open>saveAgents\<close>) change nothing outside
  it but the directories above it. Two path computations choose the same root when
  the test gives the same answer in both worlds.
\<close>

theorem root_chosen_per_call:
  "priv_getProjectsDir reg w =
     (if nodes w (ccxDir reg) \<noteq> None \<and> w_ok w (ccxDir reg) then projectsDir reg
      else fallbackProjectsDir reg) \<and>
   getCurrentPath reg w = priv_getProjectsDir reg w @ [''current.json''] \<and>
   (name_grammar n \<longrightarrow>
      getProjectDir reg (JStr n) w = priv_getProjectsDir reg w @ [n] \<and>
      getProjectMetaPath reg (JStr n) w = priv_getProjectsDir reg w @ [n, ''project.json''] \<and>
      getAgentsPath reg (JStr n) w = priv_getProjectsDir reg w @ [n, ''agents.json''] \<and>
      getLogsDir reg (JStr n) w = priv_getProjectsDir reg w @ [n, ''logs'']) \<and>
   (canWrite (ccxDir reg) w' = canWrite (ccxDir reg) w \<longrightarrow>
      priv_getProjectsDir reg w' = priv_getProjectsDir reg w) \<and>
   (\<forall>r w1 q. setCurrentProject reg pn w = (r, w1) \<and> nodes w1 q \<noteq> nodes w q \<longrightarrow>
      prefix (priv_getProjectsDir reg w) q \<or> prefix q (priv_getProjectsDir reg w)) \<and>
   (\<forall>r w1 q. clearCurrentProject reg w = (r, w1) \<and> nodes w1 q \<noteq> nodes w q \<longrightarrow>
      prefix (priv_getProjectsDir reg w) q) \<and>
   (\<forall>r w1 q data. name_grammar n \<and> saveAgents reg (JStr n) data w = (r, w1) \<and> nodes w1 q \<noteq> nodes w q \<longrightarrow>
      prefix (priv_getProjectsDir reg w) q \<or> prefix q (priv_getProjectsDir reg w))"
proof (intro conjI impI allI)
  show "priv_getProjectsDir reg w =
     (if nodes w (ccxDir reg) \<noteq> None \<and> w_ok w (ccxDir reg) then projectsDir reg
      else fallbackProjectsDir reg)"
    by (simp add: priv_getProjectsDir_def canWrite_iff)
  show "getCurrentPath reg w = priv_getProjectsDir reg w @ [''current.json'']"
    by (rule getCurrentPath_eq)
  show "priv_getProjectsDir reg w' = priv_getProjectsDir reg w"
    if "canWrite (ccxDir reg) w' = canWrite (ccxDir reg) w"
    using that by (simp add: priv_getProjectsDir_def)
next
  assume n: "name_grammar n"
  then show "getProjectDir reg (JStr n) w = priv_getProjectsDir reg w @ [n]"
    by (simp add: getProjectDir_def path_join_name)
  with n show "getProjectMetaPath reg (JStr n) w = priv_getProjectsDir reg w @ [n, ''project.json'']"
    "getAgentsPath reg (JStr n) w = priv_getProjectsDir reg w @ [n, ''agents.json'']"
    "getLogsDir reg (JStr n) w = priv_getProjectsDir reg w @ [n, ''logs'']"
    by (simp_all add: getProjectMetaPath_def getAgentsPath_def getLogsDir_def)
next
  fix r w1 q
  assume a: "setCurrentProject reg pn w = (r, w1) \<and> nodes w1 q \<noteq> nodes w q"
  then have "writeJsonAtomic (getCurrentPath reg w)
               (JObj [(''name'', JStr (js_String pn)), (''updatedAt'', JStr (now w))]) w = (r, w1)"
    by (simp add: setCurrentProject_def)
  moreover from a have "nodes w1 q \<noteq> nodes w q" by simp
  ultimately have "q = getCurrentPath reg w \<or> q = tmp_of (getCurrentPath reg w) \<or>
      prefix q (path_dirname (getCurrentPath reg w))"
    by (rule writeJsonAtomic_frame)
  then show "prefix (priv_getProjectsDir reg w) q \<or> prefix q (priv_getProjectsDir reg w)"
    by (auto simp: getCurrentPath_eq)
next
  fix r w1 q
  assume "clearCurrentProject reg w = (r, w1) \<and> nodes w1 q \<noteq> nodes w q"
  then show "prefix (priv_getProjectsDir reg w) q"
    by (auto simp: clearCurrentProject_apply getCurrentPath_eq split: if_splits)
next
  fix r w1 q data
  assume a: "name_grammar n \<and> saveAgents reg (JStr n) data w = (r, w1) \<and> nodes w1 q \<noteq> nodes w q"
  then have p: "getAgentsPath reg (JStr n) w = (priv_getProjectsDir reg w @ [n]) @ [''agents.json'']"
    by (simp add: getAgentsPath_def getProjectDir_def path_join_name)
  from a have "writeJsonAtomic (getAgentsPath reg (JStr n) w)
      (JObj (obj_set ''updatedAt'' (JStr (now w))
               (obj_set ''project'' (JStr (js_String (JStr n))) (js_spread data)))) w = (r, w1)"
    by (simp add: saveAgents_def)
  moreover from a have "nodes w1 q \<noteq> nodes w q" by simp
  ultimately have "q = getAgentsPath reg (JStr n) w \<or> q = tmp_of (getAgentsPath reg (JStr n) w) \<or>
      prefix q (path_dirname (getAgentsPath reg (JStr n) w))"
    by (rule writeJsonAtomic_frame)
  then show "prefix (priv_getProjectsDir reg w) q \<or> prefix q (priv_getProjectsDir reg w)"
    unfolding p by (auto simp: prefix_snoc)
qed

text \<open>
  The claim as it is written fails. The constructor makes the directories and tests
  no writability; the test is made on every call. In the demo world the pointer is
  read from the primary root and names \<^verbatim>\<open>demo\<close>; once the primary root has lost its
  write permission, the same registry reads the pointer from the fallback root and
  finds none.
\<close>

theorem root_choice_counterexample:
  "fst (AgentRegistry (Some [''w'']) (world_with [] tmux0)) = Inr reg0 \<and>
   getCurrentPath reg0 demo_world = [''w'', ''.ccx'', ''projects'', ''current.json''] \<and>
   getCurrentProject reg0 demo_world = JStr ''demo'' \<and>
   getCurrentPath reg0 readonly_world = [''tmp'', ''ccx-agent-mux'', ''projects'', ''current.json''] \<and>
   getCurrentProject reg0 readonly_world = JNull"
  by code_simp


lemma demo_name: "name_grammar ''demo''"
  by code_simp

lemma demo_root_facts:
  "canWrite (ccxDir reg0) (world_with demo_fs tmux0) = canWrite (ccxDir reg0) demo_world \<and>
   priv_getProjectsDir reg0 demo_world = [''w'', ''.ccx'', ''projects''] \<and>
   nodes (snd (setCurrentProject reg0 (JStr ''other'') demo_world))
         [''w'', ''.ccx'', ''projects'', ''current.json''] \<noteq>
     nodes demo_world [''w'', ''.ccx'', ''projects'', ''current.json'']"
  by code_simp

theorem root_chosen_per_call_witness:
  "getAgentsPath reg0 (JStr ''demo'') demo_world = [''w'', ''.ccx'', ''projects'', ''demo'', ''agents.json''] \<and>
   priv_getProjectsDir reg0 (world_with demo_fs tmux0) = priv_getProjectsDir reg0 demo_world \<and>
   (prefix (priv_getProjectsDir reg0 demo_world) [''w'', ''.ccx'', ''projects'', ''current.json''] \<or>
    prefix [''w'', ''.ccx'', ''projects'', ''current.json''] (priv_getProjectsDir reg0 demo_world))"
proof -
  let ?run = "setCurrentProject reg0 (JStr ''other'') demo_world"
  note t = root_chosen_per_call [of reg0 demo_world "''demo''" "world_with demo_fs tmux0" "JStr ''other''"]
  have run: "?run = (fst ?run, snd ?run)" by simp
  from t demo_name demo_root_facts
  have 1: "getAgentsPath reg0 (JStr ''demo'') demo_world = [''w'', ''.ccx'', ''projects'', ''demo'', ''agents.json'']"
    and 2: "priv_getProjectsDir reg0 (world_with demo_fs tmux0) = priv_getProjectsDir reg0 demo_world"
    by simp_all
  from t have "\<forall>r w1 q. ?run = (r, w1) \<and> nodes w1 q \<noteq> nodes demo_world q \<longrightarrow>
      prefix (priv_getProjectsDir reg0 demo_world) q \<or> prefix q (priv_getProjectsDir reg0 demo_world)"
    by blast
  with run demo_root_facts
  have 3: "prefix (priv_getProjectsDir reg0 demo_world) [''w'', ''.ccx'', ''projects'', ''current.json''] \<or>
    prefix [''w'', ''.ccx'', ''projects'', ''current.json''] (priv_getProjectsDir reg0 demo_world)"
    by blast
  from 1 2 3 show ?thesis by blast
qed


section \<open>Creating a project\<close>

lemma assertSafeName_Inr:
  assumes "assertSafeName kind v = Inr n"
  shows "name_grammar n"
  using assms
  by (auto simp: assertSafeName_def name_regex_grammar Let_def split: jsval.splits if_splits)

lemma registry_paths:
  assumes "name_grammar n"
  shows "getProjectDir reg (JStr n) w = priv_getProjectsDir reg w @ [n]"
    and "getProjectMetaPath reg (JStr n) w = priv_getProjectsDir reg w @ [n, ''project.json'']"
    and "getAgentsPath reg (JStr n) w = priv_getProjectsDir reg w @ [n, ''agents.json'']"
    and "getLogsDir reg (JStr n) w = priv_getProjectsDir reg w @ [n, ''logs'']"
  using assms
  by (simp_all add: getProjectDir_def getProjectMetaPath_def getAgentsPath_def getLogsDir_def
      path_join_name)

text \<open>The choice of the root after a change of the file system.\<close>

lemma root_after:
  assumes "(nodes w' (ccxDir reg) \<noteq> None) = (nodes w (ccxDir reg) \<noteq> None) \<or> \<not> w_ok w (ccxDir reg)"
      and "w_ok w' = w_ok w"
  shows "priv_getProjectsDir reg w' = priv_getProjectsDir reg w"
  using assms by (auto simp: priv_getProjectsDir_def canWrite_iff)

lemma ccx_last:
  assumes "constructed reg"
  shows "ccxDir reg = projectRoot reg @ [''.ccx'']"
  using assms by (simp add: constructed_def)

lemma snoc_eq_snoc2 [simp]: "(p @ [x] = r @ [a, b]) = (p = r @ [a] \<and> x = b)"
  using append1_eq_conv [of p x "r @ [a]" b] by simp

lemma snoc2_eq_snoc [simp]: "(r @ [a, b] = p @ [x]) = (r @ [a] = p \<and> b = x)"
  using append1_eq_conv [of "r @ [a]" b p x] by simp

lemma snoc2_eq_snoc2 [simp]: "(p @ [x, y] = r @ [a, b]) = (p = r \<and> x = a \<and> y = b)"
  using append1_eq_conv [of "p @ [x]" y "r @ [a]" b] by auto

lemma snoc2_neq_self [simp]: "r @ [a, b] \<noteq> r" "r @ [a, b] \<noteq> r @ [c]" "r @ [c] \<noteq> r @ [a, b]"
  by auto

lemma prefix_snoc2: "prefix q (r @ [a, b]) = (prefix q r \<or> q = r @ [a] \<or> q = r @ [a, b])"
  using prefix_snoc [of q "r @ [a]" b] by (auto simp: prefix_snoc)


lemma not_prefix_longer [simp]:
  "\<not> prefix (r @ [a, b]) r" "\<not> prefix (r @ [a]) r" "\<not> prefix (r @ [a, b]) (r @ [c])"
  by (auto dest!: prefix_length_le)

lemma ensureProject_run:
  fixes reg :: registry and w :: "'b world"
  assumes con: "constructed reg"
      and n: "name_grammar n"
      and meta: "meta \<noteq> []"
      and logs: "\<not> is_file w (getLogsDir reg (JStr n) w)"
      and slotM: "json_slot_free (getProjectMetaPath reg (JStr n) w) w"
      and slotA: "json_slot_free (getAgentsPath reg (JStr n) w) w"
      and root: "nodes w (ccxDir reg) \<noteq> None \<or> \<not> w_ok w (ccxDir reg)"
  defines "R \<equiv> priv_getProjectsDir reg w"
  shows "\<exists>nd. ensureProject reg (JStr n) meta w = (Inr (), w\<lparr>nodes := nd\<rparr>) \<and>
           (\<forall>q. prefix q (R @ [n, ''logs'']) \<longrightarrow> nd q = Some Dir) \<and>
           (\<exists>c. nd (R @ [n, ''project.json'']) = Some (File c)) \<and>
           (\<exists>c. nd (R @ [n, ''agents.json'']) = Some (File c)) \<and>
           nd (R @ [n, ''project.json.tmp'']) = None \<and>
           (\<forall>q. \<not> prefix q (R @ [n, ''logs'']) \<and> q \<notin> {R @ [n, ''project.json''],
                  R @ [n, ''project.json.tmp''], R @ [n, ''agents.json''], R @ [n, ''agents.json.tmp'']}
                \<longrightarrow> nd q = nodes w q) \<and>
           (nodes w (R @ [n, ''agents.json'']) \<noteq> None \<longrightarrow>
              nd (R @ [n, ''agents.json'']) = nodes w (R @ [n, ''agents.json'']) \<and>
              nd (R @ [n, ''agents.json.tmp'']) = nodes w (R @ [n, ''agents.json.tmp''])) \<and>
           nd (R @ [n, ''agents.json.tmp'']) \<noteq> Some Dir"
proof -
  let ?D = "R @ [n]" and ?L = "R @ [n, ''logs'']" and ?M = "R @ [n, ''project.json'']"
  let ?A = "R @ [n, ''agents.json'']"
  let ?Mt = "R @ [n, ''project.json.tmp'']" and ?At = "R @ [n, ''agents.json.tmp'']"
  note paths = registry_paths [OF n, of reg]
  have pD: "getProjectDir reg (JStr n) w = ?D" and pL: "getLogsDir reg (JStr n) w = ?L"
    and pM: "getProjectMetaPath reg (JStr n) w = ?M" and pA: "getAgentsPath reg (JStr n) w = ?A"
    by (simp_all add: paths R_def)
  have ccx: "ccxDir reg \<noteq> ?Mt" "ccxDir reg \<noteq> ?At"
    using ccx_last [OF con] by simp_all
  have stable: "priv_getProjectsDir reg (w\<lparr>nodes := nd\<rparr>) = R"
    if "nodes w (ccxDir reg) \<noteq> None \<Longrightarrow> nd (ccxDir reg) \<noteq> None" for nd
    unfolding R_def using root that by (intro root_after) auto
  have noF: "\<And>q. prefix q ?D \<Longrightarrow> \<not> is_file w q"
    using slotM by (auto simp: pM json_slot_free_def list_ex_iff)
  define na1 where "na1 = (\<lambda>q. if prefix q ?D then Some Dir else nodes w q)"
  define na where "na = (\<lambda>q. if prefix q ?L then Some Dir else nodes w q)"
  have mk1: "mkdirSync ?D w = (Inr (), w\<lparr>nodes := na1\<rparr>)"
    using noF by (auto simp: mkdirSync_apply na1_def list_ex_iff)
  have mk2: "mkdirSync ?L (w\<lparr>nodes := na1\<rparr>) = (Inr (), w\<lparr>nodes := na\<rparr>)"
    using noF logs
    by (auto simp: mkdirSync_apply na_def na1_def list_ex_iff is_file_def pL fun_eq_iff
        prefix_snoc2 prefix_snoc split: option.splits node.splits)
  have pMa: "getProjectMetaPath reg (JStr n) (w\<lparr>nodes := na\<rparr>) = ?M"
    using stable [of na] by (simp add: paths na_def)
  have slotMa: "json_slot_free ?M (w\<lparr>nodes := na\<rparr>)"
    using slotM
    by (auto simp: pM json_slot_free_def list_ex_iff is_file_def na_def prefix_snoc2 prefix_snoc)
  define nb where "nb = (\<lambda>X q. if q = ?M then Some (File (Json (json_norm X)))
                              else if q = ?Mt then None else na q)"
  have wr: "writeJsonAtomic ?M X (w\<lparr>nodes := na\<rparr>) = (Inr (), w\<lparr>nodes := nb X\<rparr>)" for X
    using writeJsonAtomic_apply [OF slotMa, where d = X]
    by (auto simp: nb_def na_def fun_eq_iff prefix_snoc2 prefix_snoc)
  have pAb: "getAgentsPath reg (JStr n) (w\<lparr>nodes := nb X\<rparr>) = ?A" for X
    using stable [of "nb X"] ccx by (simp add: paths nb_def na_def)
  have slotAb: "json_slot_free ?A (w\<lparr>nodes := nb X\<rparr>)" for X
    using slotA
    by (auto simp: pA json_slot_free_def list_ex_iff is_file_def nb_def na_def prefix_snoc2 prefix_snoc)
  define nc where "nc = (\<lambda>X Y q. if q = ?A then Some (File (Json (json_norm Y)))
                              else if q = ?At then None else nb X q)"
  have wrA: "writeJsonAtomic ?A Y (w\<lparr>nodes := nb X\<rparr>) = (Inr (), w\<lparr>nodes := nc X Y\<rparr>)" for X Y
    using writeJsonAtomic_apply [OF slotAb [of X], where d = Y]
    by (auto simp: nc_def nb_def na_def fun_eq_iff prefix_snoc2 prefix_snoc)
  have b1: "bnd (mkdirSync ?D) f w = f () (w\<lparr>nodes := na1\<rparr>)" for f :: "unit \<Rightarrow> (unit, 'b) js"
    using mk1 by (simp add: bnd_def)
  have b2: "bnd (mkdirSync ?L) f (w\<lparr>nodes := na1\<rparr>) = f () (w\<lparr>nodes := na\<rparr>)"
    for f :: "unit \<Rightarrow> (unit, 'b) js"
    using mk2 by (simp add: bnd_def)
  have b3: "bnd (writeJsonAtomic ?M X) f (w\<lparr>nodes := na\<rparr>) = f () (w\<lparr>nodes := nb X\<rparr>)"
    for f :: "unit \<Rightarrow> (unit, 'b) js" and X
    using wr [of X] by (simp add: bnd_def)
  have run: "\<exists>X Y. ensureProject reg (JStr n) meta w =
               (Inr (), w\<lparr>nodes := (if existsSync ?A (w\<lparr>nodes := nb X\<rparr>) then nb X else nc X Y)\<rparr>)"
    using meta
    by (auto simp: ensureProject_def bnd_assoc pD pL pMa pAb b1 b2 b3 wrA)
  then obtain X Y where run: "ensureProject reg (JStr n) meta w =
       (Inr (), w\<lparr>nodes := (if existsSync ?A (w\<lparr>nodes := nb X\<rparr>) then nb X else nc X Y)\<rparr>)"
    by blast
  let ?nd = "if existsSync ?A (w\<lparr>nodes := nb X\<rparr>) then nb X else nc X Y"
  have 1: "\<forall>q. prefix q ?L \<longrightarrow> ?nd q = Some Dir"
    by (auto simp: nc_def nb_def na_def prefix_snoc2 prefix_snoc)
  have 2: "\<exists>c. ?nd ?M = Some (File c)"
    by (simp add: nc_def nb_def)
  have 3: "\<exists>c. ?nd ?A = Some (File c)"
    using slotA
    by (auto simp: nc_def nb_def na_def existsSync_def pA json_slot_free_def prefix_snoc2 prefix_snoc)
       (metis node.exhaust)
  have 4: "?nd ?Mt = None"
    by (simp add: nc_def nb_def)
  have 5: "\<forall>q. \<not> prefix q ?L \<and> q \<notin> {?M, ?Mt, ?A, ?At} \<longrightarrow> ?nd q = nodes w q"
    by (simp add: nc_def nb_def na_def)
  have 6: "nodes w ?A \<noteq> None \<longrightarrow> ?nd ?A = nodes w ?A \<and> ?nd ?At = nodes w ?At"
    by (auto simp: nc_def nb_def na_def existsSync_def)
  have 7: "?nd ?At \<noteq> Some Dir"
    using slotA by (auto simp: nc_def nb_def na_def pA json_slot_free_def)
  from run 1 2 3 4 5 6 7 show ?thesis by blast
qed


lemma tmux_run_nodes [simp]: "tmux_run tm argv (w\<lparr>nodes := nd\<rparr>) = tmux_run tm argv w"
  by (simp add: tmux_run_def)

lemma tmux_run_nodes_proc [simp]:
  "tmux_run tm argv (w\<lparr>nodes := nd, proc := b\<rparr>) = tmux_run tm argv (w\<lparr>proc := b\<rparr>)"
  by (simp add: tmux_run_def)

lemma createSession_apply:
  "createSession tm name cwd w =
     (if spawn_ok (fst (tmux_run tm [JStr ''has-session'', JStr ''-t'', name] w))
      then (Inr (JObj [(''created'', JBool False)]),
            w\<lparr>proc := snd (tmux_run tm [JStr ''has-session'', JStr ''-t'', name] w)\<rparr>)
      else (if spawn_ok (fst (tmux_run tm
                  (new_session_args name cwd)
                  (w\<lparr>proc := snd (tmux_run tm [JStr ''has-session'', JStr ''-t'', name] w)\<rparr>)))
            then Inr (JObj [(''created'', JBool True)]) else Inl BackendCommandError,
            w\<lparr>proc := snd (tmux_run tm
                  (new_session_args name cwd)
                  (w\<lparr>proc := snd (tmux_run tm [JStr ''has-session'', JStr ''-t'', name] w)\<rparr>))\<rparr>))"
  by (simp add: createSession_def hasSession_apply exec_apply bnd_def)

lemma setCurrentProject_apply:
  assumes "json_slot_free (getCurrentPath reg w) w"
  shows "setCurrentProject reg pn w =
     (Inr (), w\<lparr>nodes := (\<lambda>q.
        if q = getCurrentPath reg w
        then Some (File (Json (json_norm
               (JObj [(''name'', JStr (js_String pn)), (''updatedAt'', JStr (now w))]))))
        else if q = tmp_of (getCurrentPath reg w) then None
        else if prefix q (path_dirname (getCurrentPath reg w)) then Some Dir
        else nodes w q)\<rparr>)"
proof -
  have "getCurrentPath reg w \<noteq> []" by (simp add: getCurrentPath_eq)
  with assms show ?thesis by (simp add: setCurrentProject_def writeJsonAtomic_apply)
qed

lemma settled_free:
  assumes "name_grammar n" "settled reg n w"
  shows "storage_free reg n w"
  using assms
  by (auto simp: settled_def storage_free_def registry_paths getCurrentPath_eq json_slot_free_def
      list_all_iff list_ex_iff is_file_def prefix_snoc2 prefix_snoc
      split: option.splits node.splits)


lemma create_project_run:
  fixes mx :: agent_mux and w :: "'b world" and cwd :: jsval
  assumes con: "constructed (registry mx)"
      and nm: "assertSafeName ''project'' name = Inr n"
      and ne: "n \<noteq> ''current.json''" "n \<noteq> ''current.json.tmp''"
      and free: "storage_free (registry mx) n w"
  defines "R \<equiv> priv_getProjectsDir (registry mx) w"
      and "h \<equiv> tmux_run (tmux mx) [JStr ''has-session'', JStr ''-t'', JStr n] w"
      and "rc \<equiv> resolve_cwd cwd w"
  defines "k \<equiv> tmux_run (tmux mx) (new_session_args (JStr n) rc) (w\<lparr>proc := snd h\<rparr>)"
  shows "\<exists>nd.
      create_project mx name cwd w =
        (if spawn_ok (fst h)
         then (Inr (JObj [(''project'', JStr n), (''cwd'', rc), (''created'', JBool False),
                          (''storageDir'', JStr (path_str (R @ [n])))]),
               w\<lparr>nodes := nd, proc := snd h\<rparr>)
         else if spawn_ok (fst k)
         then (Inr (JObj [(''project'', JStr n), (''cwd'', rc), (''created'', JBool True),
                          (''storageDir'', JStr (path_str (R @ [n])))]),
               w\<lparr>nodes := nd, proc := snd k\<rparr>)
         else (Inl BackendCommandError, snd (create_project mx name cwd w))) \<and>
      (\<forall>b. settled (registry mx) n (w\<lparr>nodes := nd, proc := b\<rparr>)) \<and>
      (settled (registry mx) n w \<longrightarrow>
         dom nd = dom (nodes w) \<and> nd (R @ [n, ''agents.json'']) = nodes w (R @ [n, ''agents.json'']))"
proof -
  let ?reg = "registry mx"
  let ?L = "R @ [n, ''logs'']" and ?M = "R @ [n, ''project.json'']" and ?A = "R @ [n, ''agents.json'']"
  let ?Mt = "R @ [n, ''project.json.tmp'']" and ?At = "R @ [n, ''agents.json.tmp'']"
  let ?P = "R @ [''current.json'']" and ?Pt = "R @ [''current.json.tmp'']"
  have n: "name_grammar n" using nm by (rule assertSafeName_Inr)
  note paths = registry_paths [OF n, of ?reg]
  from free have logs: "\<not> is_file w (getLogsDir ?reg (JStr n) w)"
    and slotM: "json_slot_free (getProjectMetaPath ?reg (JStr n) w) w"
    and slotA: "json_slot_free (getAgentsPath ?reg (JStr n) w) w"
    and slotP: "json_slot_free (getCurrentPath ?reg w) w"
    and root: "nodes w (ccxDir ?reg) \<noteq> None \<or> \<not> w_ok w (ccxDir ?reg)"
    by (simp_all add: storage_free_def)
  from ensureProject_run [OF con n _ logs slotM slotA root, of "[(''cwd'', rc)]"]
  obtain nd0 where ens: "ensureProject ?reg (JStr n) [(''cwd'', rc)] w = (Inr (), w\<lparr>nodes := nd0\<rparr>)"
    and d0: "\<And>q. prefix q ?L \<Longrightarrow> nd0 q = Some Dir"
    and m0: "\<exists>c. nd0 ?M = Some (File c)"
    and a0: "\<exists>c. nd0 ?A = Some (File c)"
    and t0: "nd0 ?Mt = None"
    and f0: "\<And>q. \<not> prefix q ?L \<Longrightarrow> q \<notin> {?M, ?Mt, ?A, ?At} \<Longrightarrow> nd0 q = nodes w q"
    and k0: "nodes w ?A \<noteq> None \<Longrightarrow> nd0 ?A = nodes w ?A \<and> nd0 ?At = nodes w ?At"
    and s0: "nd0 ?At \<noteq> Some Dir"
    unfolding R_def by auto
  have ccx: "ccxDir ?reg \<notin> {?M, ?Mt, ?A, ?At, ?P, ?Pt}"
    using ccx_last [OF con] by simp
  have ccx0: "nodes w (ccxDir ?reg) \<noteq> None \<Longrightarrow> nd0 (ccxDir ?reg) \<noteq> None"
    using d0 [of "ccxDir ?reg"] f0 [of "ccxDir ?reg"] ccx by (cases "prefix (ccxDir ?reg) ?L") auto
  have r0: "priv_getProjectsDir ?reg (w\<lparr>nodes := nd0\<rparr>) = R"
    unfolding R_def using root ccx0 by (intro root_after) auto
  have pP: "getCurrentPath ?reg (w\<lparr>nodes := nd0\<rparr>) = ?P"
    using r0 by (simp add: getCurrentPath_eq)
  have nP: "nd0 ?P = nodes w ?P" "nd0 ?Pt = nodes w ?Pt"
    using ne by (auto intro!: f0 simp: prefix_snoc2 prefix_snoc)
  have slotP0: "json_slot_free ?P (w\<lparr>nodes := nd0\<rparr>)"
    using slotP d0 nP
    by (auto simp: json_slot_free_def getCurrentPath_eq R_def [symmetric] list_ex_iff is_file_def
        prefix_snoc2)
  define nd where "nd = (\<lambda>q. if q = ?P
        then Some (File (Json (json_norm
               (JObj [(''name'', JStr (js_String (JStr n))), (''updatedAt'', JStr (now w))]))))
        else if q = ?Pt then None
        else if prefix q R then Some Dir
        else nd0 q)"
  have setc: "setCurrentProject ?reg (JStr n) (w\<lparr>nodes := nd0, proc := b\<rparr>) =
                (Inr (), w\<lparr>nodes := nd, proc := b\<rparr>)" for b
    using setCurrentProject_apply [of ?reg "w\<lparr>nodes := nd0, proc := b\<rparr>" "JStr n"] slotP0
    by (simp add: pP nd_def cong: if_cong)
  have ccx1: "nodes w (ccxDir ?reg) \<noteq> None \<Longrightarrow> nd (ccxDir ?reg) \<noteq> None"
    using ccx0 ccx by (auto simp: nd_def)
  have r1: "priv_getProjectsDir ?reg (w\<lparr>nodes := nd\<rparr>) = R"
    unfolding R_def using root ccx1 by (intro root_after) auto
  have pD1: "getProjectDir ?reg (JStr n) (w\<lparr>nodes := nd\<rparr>) = R @ [n]"
    using r1 by (simp add: paths)
  have run: "create_project mx name cwd w =
        (if spawn_ok (fst h)
         then (Inr (JObj [(''project'', JStr n), (''cwd'', rc), (''created'', JBool False),
                          (''storageDir'', JStr (path_str (R @ [n])))]),
               w\<lparr>nodes := nd, proc := snd h\<rparr>)
         else if spawn_ok (fst k)
         then (Inr (JObj [(''project'', JStr n), (''cwd'', rc), (''created'', JBool True),
                          (''storageDir'', JStr (path_str (R @ [n])))]),
               w\<lparr>nodes := nd, proc := snd k\<rparr>)
         else (Inl BackendCommandError, snd (create_project mx name cwd w)))"
    unfolding create_project_def
    using nm ens setc pD1
    by (simp add: bnd_def gets_def lift_def createSession_apply rc_def h_def k_def)
  have st: "settled ?reg n (w\<lparr>nodes := nd, proc := b\<rparr>)" for b
  proof -
    have "nd q = Some Dir" if "prefix q ?L" for q
      using that d0 [of q] ne by (auto simp: nd_def prefix_snoc2 prefix_snoc)
    moreover have "is_file (w\<lparr>nodes := nd\<rparr>) ?M" "is_file (w\<lparr>nodes := nd\<rparr>) ?A"
      "is_file (w\<lparr>nodes := nd\<rparr>) ?P"
      using m0 a0 by (auto simp: nd_def is_file_def)
    moreover have "nd ?Mt = None" "nd ?Pt = None" "nd ?At \<noteq> Some Dir"
      using t0 s0 by (auto simp: nd_def)
    moreover have "nd (ccxDir ?reg) \<noteq> None \<or> \<not> w_ok w (ccxDir ?reg)"
      using root ccx1 by auto
    ultimately show ?thesis
      by (simp add: settled_def r1 list_all_iff)
  qed
  have keep: "dom nd = dom (nodes w) \<and> nd ?A = nodes w ?A" if s: "settled ?reg n w"
  proof -
    from s have dirs: "\<And>q. prefix q ?L \<Longrightarrow> nodes w q = Some Dir"
      and fM: "is_file w ?M" and fA: "is_file w ?A" and fP: "is_file w ?P"
      and tM: "nodes w ?Mt = None" and tP: "nodes w ?Pt = None"
      by (simp_all add: settled_def R_def list_all_iff)
    from fA have exA: "nodes w ?A \<noteq> None"
      by (auto simp: is_file_def split: option.splits)
    from fM fP have exM: "nodes w ?M \<noteq> None" and exP: "nodes w ?P \<noteq> None"
      by (auto simp: is_file_def split: option.splits)
    have "(nd q \<noteq> None) = (nodes w q \<noteq> None)" for q
    proof -
      consider (dir) "prefix q ?L" | (M) "q = ?M" | (Mt) "q = ?Mt" | (A) "q = ?A" | (At) "q = ?At"
        | (P) "q = ?P" | (Pt) "q = ?Pt"
        | (other) "\<not> prefix q ?L" "q \<notin> {?M, ?Mt, ?A, ?At, ?P, ?Pt}"
        by blast
      then show ?thesis
      proof cases
        case dir
        then have "nd q = Some Dir"
          using d0 [of q] ne by (auto simp: nd_def prefix_snoc2 prefix_snoc)
        with dirs [OF dir] show ?thesis by simp
      next
        case M
        with m0 exM show ?thesis by (auto simp: nd_def)
      next
        case Mt
        with t0 tM show ?thesis by (simp add: nd_def)
      next
        case A
        with k0 [OF exA] show ?thesis by (simp add: nd_def)
      next
        case At
        with k0 [OF exA] show ?thesis by (simp add: nd_def)
      next
        case P
        with exP show ?thesis by (simp add: nd_def)
      next
        case Pt
        with tP show ?thesis by (simp add: nd_def)
      next
        case other
        then have "\<not> prefix q R" by (auto simp: prefix_snoc2)
        with other f0 [of q] show ?thesis by (simp add: nd_def)
      qed
    qed
    then have "dom nd = dom (nodes w)" by (auto simp: dom_def)
    moreover have "nd ?A = nodes w ?A" using k0 [OF exA] by (simp add: nd_def)
    ultimately show ?thesis by simp
  qed
  from run st keep show ?thesis by blast
qed

lemma resolve_cwd_frame [simp]:
  "resolve_cwd cwd (w\<lparr>nodes := nd, proc := b\<rparr>) = resolve_cwd cwd w"
  by (simp add: resolve_cwd_def)

text \<open>
  For every other valid name, creating a project twice does what the specification
  says. Take a valid project name other than the names of the pointer file and of its
  temporary file (\<^verbatim>\<open>current.json\<close>, \<^verbatim>\<open>current.json.tmp\<close>), a world in which nothing
  stands in the way of the project's files, in which tmux has no session of that name,
  creates it when asked and then reports it. Then the first \<^verbatim>\<open>create_project\<close> returns
  \<^verbatim>\<open>created\<close> true and the second, run on the world the first leaves, returns \<^verbatim>\<open>created\<close>
  false; the second call adds no path to the file system and removes none, and leaves
  \<^verbatim>\<open>agents.json\<close> as it is. In any world, \<^verbatim>\<open>createSession\<close> on a session that tmux
  reports as present returns \<^verbatim>\<open>created\<close> false, raises nothing and runs nothing but
  \<^verbatim>\<open>has-session\<close>.
\<close>

lemma create_project_twice:
  fixes mx :: agent_mux and w :: "'b world" and cwd :: jsval
  assumes con: "constructed (registry mx)"
      and nm: "assertSafeName ''project'' name = Inr n"
      and ne: "n \<noteq> ''current.json''" "n \<noteq> ''current.json.tmp''"
      and free: "storage_free (registry mx) n w"
      and absent: "\<not> spawn_ok (fst (tmux_run (tmux mx) [JStr ''has-session'', JStr ''-t'', JStr n] w))"
      and made: "spawn_ok (fst (tmux_run (tmux mx) (new_session_args (JStr n) (resolve_cwd cwd w))
                   (w\<lparr>proc := snd (tmux_run (tmux mx) [JStr ''has-session'', JStr ''-t'', JStr n] w)\<rparr>)))"
      and present: "spawn_ok (fst (tmux_run (tmux mx) [JStr ''has-session'', JStr ''-t'', JStr n]
                   (w\<lparr>proc := snd (tmux_run (tmux mx) (new_session_args (JStr n) (resolve_cwd cwd w))
                   (w\<lparr>proc := snd (tmux_run (tmux mx) [JStr ''has-session'', JStr ''-t'', JStr n] w)\<rparr>))\<rparr>)))"
  shows "(\<exists>r1 w1 r2 w2.
           create_project mx name cwd w = (Inr r1, w1) \<and> js_get r1 ''created'' = JBool True \<and>
           create_project mx name cwd w1 = (Inr r2, w2) \<and> js_get r2 ''created'' = JBool False \<and>
           dom (nodes w2) = dom (nodes w1) \<and>
           nodes w2 (getAgentsPath (registry mx) (JStr n) w1)
             = nodes w1 (getAgentsPath (registry mx) (JStr n) w1)) \<and>
         (spawn_ok (fst (tmux_run tm [JStr ''has-session'', JStr ''-t'', s] v)) \<longrightarrow>
           createSession tm s c v =
             (Inr (JObj [(''created'', JBool False)]),
              v\<lparr>proc := snd (tmux_run tm [JStr ''has-session'', JStr ''-t'', s] v)\<rparr>))"
proof -
  let ?reg = "registry mx"
  let ?has = "[JStr ''has-session'', JStr ''-t'', JStr n]"
  let ?h = "tmux_run (tmux mx) ?has w"
  let ?k = "tmux_run (tmux mx) (new_session_args (JStr n) (resolve_cwd cwd w)) (w\<lparr>proc := snd ?h\<rparr>)"
  have n: "name_grammar n" using nm by (rule assertSafeName_Inr)
  from create_project_run [OF con nm ne free, of cwd] absent made
  obtain nd r1 where run1: "create_project mx name cwd w = (Inr r1, w\<lparr>nodes := nd, proc := snd ?k\<rparr>)"
    and c1: "js_get r1 ''created'' = JBool True"
    and st: "\<And>b. settled ?reg n (w\<lparr>nodes := nd, proc := b\<rparr>)"
    by auto
  let ?w1 = "w\<lparr>nodes := nd, proc := snd ?k\<rparr>"
  have free1: "storage_free ?reg n ?w1" using n st by (rule settled_free)
  have present1: "spawn_ok (fst (tmux_run (tmux mx) ?has ?w1))"
    using present by simp
  from create_project_run [OF con nm ne free1, of cwd] present1 st [of "snd ?k"]
  obtain nd' r2 b' where run2: "create_project mx name cwd ?w1 = (Inr r2, ?w1\<lparr>nodes := nd', proc := b'\<rparr>)"
    and c2: "js_get r2 ''created'' = JBool False"
    and keep: "dom nd' = dom (nodes ?w1)"
      "nd' (priv_getProjectsDir ?reg ?w1 @ [n, ''agents.json''])
         = nodes ?w1 (priv_getProjectsDir ?reg ?w1 @ [n, ''agents.json''])"
    by auto
  have "dom (nodes (?w1\<lparr>nodes := nd', proc := b'\<rparr>)) = dom (nodes ?w1)"
    using keep by simp
  moreover have "nodes (?w1\<lparr>nodes := nd', proc := b'\<rparr>) (getAgentsPath ?reg (JStr n) ?w1)
                   = nodes ?w1 (getAgentsPath ?reg (JStr n) ?w1)"
    using keep by (simp add: registry_paths [OF n])
  ultimately have twice: "\<exists>r1 w1 r2 w2.
           create_project mx name cwd w = (Inr r1, w1) \<and> js_get r1 ''created'' = JBool True \<and>
           create_project mx name cwd w1 = (Inr r2, w2) \<and> js_get r2 ''created'' = JBool False \<and>
           dom (nodes w2) = dom (nodes w1) \<and>
           nodes w2 (getAgentsPath (registry mx) (JStr n) w1)
             = nodes w1 (getAgentsPath (registry mx) (JStr n) w1)"
    using run1 c1 run2 c2 by blast
  have "spawn_ok (fst (tmux_run tm [JStr ''has-session'', JStr ''-t'', s] v)) \<longrightarrow>
           createSession tm s c v =
             (Inr (JObj [(''created'', JBool False)]),
              v\<lparr>proc := snd (tmux_run tm [JStr ''has-session'', JStr ''-t'', s] v)\<rparr>)"
    by (simp add: createSession_apply)
  with twice show ?thesis by blast
qed

text \<open>When tmux already has a session of the name, the first call returns \<^verbatim>\<open>created\<close>
  false: in the demo world the session \<^verbatim>\<open>demo\<close> exists.\<close>

lemma create_project_existing_session:
  "fst (create_project mx0 (JStr ''demo'') JNull demo_world)
     = Inr (JObj [(''project'', JStr ''demo''), (''cwd'', JNull), (''created'', JBool False),
                  (''storageDir'', JStr ''/w/.ccx/projects/demo'')])"
  by code_simp

lemma create_project_twice_demo:
  "assertSafeName ''project'' (JStr ''demo'') = Inr ''demo'' \<and>
   storage_free reg0 ''demo'' fresh_world \<and>
   (\<exists>r1 w1 r2 w2.
      create_project mx0 (JStr ''demo'') JNull fresh_world = (Inr r1, w1) \<and>
      js_get r1 ''created'' = JBool True \<and>
      create_project mx0 (JStr ''demo'') JNull w1 = (Inr r2, w2) \<and>
      js_get r2 ''created'' = JBool False \<and>
      dom (nodes w2) = dom (nodes w1)) \<and>
   fst (createSession (tmux mx0) (JStr ''demo'') JNull demo_world)
     = Inr (JObj [(''created'', JBool False)])"
proof -
  have con: "constructed (registry mx0)" by (rule demo_constructed)
  have nm: "assertSafeName ''project'' (JStr ''demo'') = Inr ''demo''" by code_simp
  have free: "storage_free (registry mx0) ''demo'' fresh_world" by code_simp
  have absent: "\<not> spawn_ok (fst (tmux_run (tmux mx0) [JStr ''has-session'', JStr ''-t'', JStr ''demo'']
                   fresh_world))" by code_simp
  have made: "spawn_ok (fst (tmux_run (tmux mx0) (new_session_args (JStr ''demo'') (resolve_cwd JNull fresh_world))
                   (fresh_world\<lparr>proc := snd (tmux_run (tmux mx0) [JStr ''has-session'', JStr ''-t'', JStr ''demo''] fresh_world)\<rparr>)))"
    by code_simp
  have present: "spawn_ok (fst (tmux_run (tmux mx0) [JStr ''has-session'', JStr ''-t'', JStr ''demo'']
                   (fresh_world\<lparr>proc := snd (tmux_run (tmux mx0) (new_session_args (JStr ''demo'') (resolve_cwd JNull fresh_world))
                   (fresh_world\<lparr>proc := snd (tmux_run (tmux mx0) [JStr ''has-session'', JStr ''-t'', JStr ''demo''] fresh_world)\<rparr>))\<rparr>)))"
    by code_simp
  have there: "spawn_ok (fst (tmux_run (tmux mx0) [JStr ''has-session'', JStr ''-t'', JStr ''demo'']
                   demo_world))" by code_simp
  have reg: "registry mx0 = reg0" by (simp add: mx0_def)
  note t = create_project_twice [OF con nm _ _ free absent made present,
      of "tmux mx0" "JStr ''demo''" demo_world JNull]
  from t have "\<exists>r1 w1 r2 w2.
      create_project mx0 (JStr ''demo'') JNull fresh_world = (Inr r1, w1) \<and>
      js_get r1 ''created'' = JBool True \<and>
      create_project mx0 (JStr ''demo'') JNull w1 = (Inr r2, w2) \<and>
      js_get r2 ''created'' = JBool False \<and>
      dom (nodes w2) = dom (nodes w1)"
    by auto
  moreover from t there
  have "fst (createSession (tmux mx0) (JStr ''demo'') JNull demo_world)
          = Inr (JObj [(''created'', JBool False)])"
    by simp
  ultimately show ?thesis using nm free unfolding reg by blast
qed

text \<open>
  Claim C6 fails on the code at the name \<^verbatim>\<open>current.json\<close>. The name passes the name
  check, whose comment says that it keeps unsafe file names out, and the directory of
  the project is then the place of the pointer file. On a registry just constructed,
  with a tmux that creates the session, \<^verbatim>\<open>create_project\<close> makes the directory and the
  project's files, creates the session, and raises when \<^verbatim>\<open>setCurrentProject\<close> renames its
  temporary file onto the directory. No \<^verbatim>\<open>created\<close> is returned; the session and the
  files stay, and no current project is selected.
\<close>

theorem create_project_pointer_name_clash:
  "assertSafeName ''project'' (JStr ''current.json'') = Inr ''current.json'' \<and>
   getProjectDir reg0 (JStr ''current.json'') fresh_world = getCurrentPath reg0 fresh_world \<and>
   fst (createSession (tmux mx0) (JStr ''current.json'') JNull
          (snd (ensureProject reg0 (JStr ''current.json'') [(''cwd'', JNull)] fresh_world)))
     = Inr (JObj [(''created'', JBool True)]) \<and>
   fst (create_project mx0 (JStr ''current.json'') JNull fresh_world) = Inl IoError \<and>
   f_sessions (proc (snd (create_project mx0 (JStr ''current.json'') JNull fresh_world)))
     = [''current.json''] \<and>
   nodes (snd (create_project mx0 (JStr ''current.json'') JNull fresh_world))
     [''w'', ''.ccx'', ''projects'', ''current.json''] = Some Dir \<and>
   is_file (snd (create_project mx0 (JStr ''current.json'') JNull fresh_world))
     [''w'', ''.ccx'', ''projects'', ''current.json'', ''agents.json''] \<and>
   getCurrentProject reg0 (snd (create_project mx0 (JStr ''current.json'') JNull fresh_world)) = JNull"
  by code_simp

end
